theory Spec2Isabelle
  imports Complex_Main "HOL-Library.AList"
begin

section \<open>The crop catalog (garden.py)\<close>

text \<open>
  The numeric fields of a crop (\<open>yield\<close>, \<open>water_use\<close>, \<open>delta_n\<close>) and of the garden
  parameters are JSON numbers; they are modelled as reals, so the rounding of Python
  floats is not part of the model. \<open>lifespan\<close> is a whole number of weeks (it is used as a
  bound of \<open>range\<close>), modelled as Python's unbounded \<open>int\<close>.

  A crop is a Python dict. The five keys that \<open>Crop\<close> adds to \<open>CropBase\<close> are written only
  in \<open>Garden.__init__\<close>: a loaded plant gets \<open>is_compound = False\<close> and nothing else, a
  generated entry gets \<open>is_compound = True\<close> together with the four \<open>plant_*\<close> keys. The
  field \<open>compound\<close> holds the four keys when they are there; \<open>is_compound\<close> reads it.
\<close>

datatype error = KeyError | IndexError | ZeroDivisionError

record compound_part =
  plant_1_name :: string
  plant_2_name :: string
  plant_1_yield :: real
  plant_2_yield :: real

record crop =
  name :: string
  companions :: "string list"
  greywater_ok :: bool
  yield :: real
  water_use :: real
  delta_n :: real
  lifespan :: int
  is_cover_crop :: bool
  compound :: "compound_part option"

definition is_compound :: "crop \<Rightarrow> bool" where
  "is_compound c = (compound c \<noteq> None)"

record yield_spec =
  plant :: string
  min_yield :: real
  max_yield :: "real option"
  max_yield_pct :: "real option"

record garden_schema =
  sqft :: real
  weeks :: int
  greywater :: real
  rainwater :: real
  yields :: "yield_spec list"

text \<open>The object \<open>Garden\<close>: \<open>self.garden\<close> and \<open>self.crops\<close>.\<close>

record Garden =
  garden :: garden_schema
  crops :: "crop list"

subsection \<open>Catalog expansion: \<open>Garden.__init__\<close>\<close>

text \<open>Python's \<open>a // b\<close> on ints: floor division, raising on a zero divisor.\<close>

definition floordiv :: "int \<Rightarrow> int \<Rightarrow> error + int" where
  "floordiv a b = (if b = 0 then Inl ZeroDivisionError else Inr (a div b))"

text \<open>Lines 60-79: the entry appended for one crop and one of its companions.\<close>

definition compound_crop :: "crop \<Rightarrow> crop \<Rightarrow> error + crop" where
  "compound_crop crop companion =
     (let longest_lifespan = max (lifespan crop) (lifespan companion) in
      case floordiv longest_lifespan (lifespan crop) of
        Inl e \<Rightarrow> Inl e
      | Inr crop_multiplier \<Rightarrow>
          (case floordiv longest_lifespan (lifespan companion) of
             Inl e \<Rightarrow> Inl e
           | Inr companion_multiplier \<Rightarrow>
               (let crop_yield = of_int crop_multiplier * yield crop;
                    companion_yield = of_int companion_multiplier * yield companion
                in Inr \<lparr> name = name crop @ ''-'' @ name companion,
                         companions = [],
                         greywater_ok = (greywater_ok crop \<and> greywater_ok companion),
                         yield = crop_yield + companion_yield,
                         water_use = water_use crop + water_use companion,
                         delta_n = delta_n crop * of_int crop_multiplier
                                     + delta_n companion * of_int companion_multiplier,
                         lifespan = longest_lifespan,
                         is_cover_crop = (is_cover_crop crop \<and> is_cover_crop companion),
                         compound = Some \<lparr> plant_1_name = name crop,
                                           plant_2_name = name companion,
                                           plant_1_yield = crop_yield,
                                           plant_2_yield = companion_yield \<rparr> \<rparr>)))"

text \<open>Line 59: \<open>for companion in companions\<close>, appending to \<open>compound_crops\<close>.\<close>

fun companions_loop :: "crop \<Rightarrow> crop list \<Rightarrow> crop list \<Rightarrow> error + crop list" where
  "companions_loop crop [] compound_crops = Inr compound_crops"
| "companions_loop crop (companion # rest) compound_crops =
     (case compound_crop crop companion of
        Inl e \<Rightarrow> Inl e
      | Inr c \<Rightarrow> companions_loop crop rest (compound_crops @ [c]))"

text \<open>
  Line 57: \<open>for crop in self.crops\<close>. The first argument is \<open>self.crops\<close>, which the loop
  does not change (the new entries are collected in \<open>compound_crops\<close>), the second is
  what is left to iterate.
\<close>

fun crops_loop :: "crop list \<Rightarrow> crop list \<Rightarrow> crop list \<Rightarrow> error + crop list" where
  "crops_loop self_crops [] compound_crops = Inr compound_crops"
| "crops_loop self_crops (crop # rest) compound_crops =
     (case companions_loop crop [c \<leftarrow> self_crops. name c \<in> set (companions crop)] compound_crops of
        Inl e \<Rightarrow> Inl e
      | Inr compound_crops' \<Rightarrow> crops_loop self_crops rest compound_crops')"

text \<open>
  \<open>Garden.__init__\<close>, from the parsed and validated garden file and plant files on
  (reading and validating them is the work of \<open>json\<close> and \<open>jsonschema\<close>).
\<close>

definition Garden_init :: "garden_schema \<Rightarrow> crop list \<Rightarrow> error + Garden" where
  "Garden_init garden_file plants =
     (let self_crops = map (\<lambda>plant. plant\<lparr>compound := None\<rparr>) plants in
      case crops_loop self_crops self_crops [] of
        Inl e \<Rightarrow> Inl e
      | Inr compound_crops \<Rightarrow> Inr \<lparr> garden = garden_file, crops = self_crops @ compound_crops \<rparr>)"

subsection \<open>Yield attribution and lookups\<close>

text \<open>
  A Python dict keeps its keys in insertion order and \<open>d[k] = v\<close> overwrites in place:
  an association list under \<open>AList.update\<close>, read with \<open>map_of\<close>.
  The local dict \<open>yields\<close> is \<open>yields_acc\<close> here (\<open>yields\<close> is the field of the garden file).
\<close>

fun get_target_yields_loop :: "crop list \<Rightarrow> string \<Rightarrow> (string \<times> real) list \<Rightarrow> (string \<times> real) list" where
  "get_target_yields_loop [] target yields_acc = yields_acc"
| "get_target_yields_loop (c # rest) target yields_acc =
     get_target_yields_loop rest target
       (case compound c of
          None \<Rightarrow> (if name c = target then AList.update (name c) (yield c) yields_acc else yields_acc)
        | Some p \<Rightarrow>
            (if plant_1_name p = target then AList.update (name c) (plant_1_yield p) yields_acc
             else if plant_2_name p = target then AList.update (name c) (plant_2_yield p) yields_acc
             else yields_acc))"

definition get_target_yields :: "Garden \<Rightarrow> string \<Rightarrow> (string \<times> real) list" where
  "get_target_yields self target = get_target_yields_loop (crops self) target []"

definition get_plants :: "Garden \<Rightarrow> string list" where
  "get_plants self = map name (crops self)"

definition get_crop_by_name :: "Garden \<Rightarrow> string \<Rightarrow> error + crop" where
  "get_crop_by_name self n =
     (case [c \<leftarrow> crops self. name c = n] of [] \<Rightarrow> Inl IndexError | c # _ \<Rightarrow> Inr c)"

definition get_non_compound_plant_names :: "Garden \<Rightarrow> string list" where
  "get_non_compound_plant_names self = map name [p \<leftarrow> crops self. \<not> is_compound p]"

definition get_greywater_plants :: "Garden \<Rightarrow> crop list" where
  "get_greywater_plants self = [c \<leftarrow> crops self. greywater_ok c]"

section \<open>The model builder (main.py)\<close>

subsection \<open>Exceptions, comprehensions and loops\<close>

text \<open>
  A computation that may raise returns \<open>error + 'a\<close>; \<open>and_then\<close> runs the next statement
  unless the first one raised.
\<close>

definition and_then :: "error + 'a \<Rightarrow> ('a \<Rightarrow> error + 'b) \<Rightarrow> error + 'b" where
  "and_then m f = (case m of Inl e \<Rightarrow> Inl e | Inr x \<Rightarrow> f x)"

text \<open>\<open>[f(x) for x in xs]\<close> where \<open>f\<close> may raise.\<close>

fun comprehension :: "('a \<Rightarrow> error + 'b) \<Rightarrow> 'a list \<Rightarrow> error + 'b list" where
  "comprehension f [] = Inr []"
| "comprehension f (x # xs) =
     and_then (f x) (\<lambda>y. and_then (comprehension f xs) (\<lambda>ys. Inr (y # ys)))"

text \<open>\<open>for x in xs: body\<close>, where the body updates a state and may raise.\<close>

fun for_loop :: "('a \<Rightarrow> 's \<Rightarrow> error + 's) \<Rightarrow> 'a list \<Rightarrow> 's \<Rightarrow> error + 's" where
  "for_loop body [] s = Inr s"
| "for_loop body (x # xs) s = and_then (body x s) (for_loop body xs)"

text \<open>\<open>d[k]\<close> on a dict, and \<open>[d[k] for k in ks]\<close>.\<close>

definition getitem :: "('k \<times> 'v) list \<Rightarrow> 'k \<Rightarrow> error + 'v" where
  "getitem d k = (case map_of d k of None \<Rightarrow> Inl KeyError | Some v \<Rightarrow> Inr v)"

definition getitems :: "('k \<times> 'v) list \<Rightarrow> 'k list \<Rightarrow> error + 'v list" where
  "getitems d ks = comprehension (getitem d) ks"

text \<open>\<open>range(a, b)\<close> on ints.\<close>

definition py_range :: "int \<Rightarrow> int \<Rightarrow> int list" where
  "py_range a b = [a..b - 1]"

text \<open>The decimal text of an int, as an f-string prints it.\<close>

fun str_nat :: "nat \<Rightarrow> string" where
  "str_nat n =
     (if n < 10 then [''0123456789'' ! n]
      else str_nat (n div 10) @ [''0123456789'' ! (n mod 10)])"

declare str_nat.simps [simp del]

definition str_int :: "int \<Rightarrow> string" where
  "str_int i = (if i < 0 then CHR ''-'' # str_nat (nat (- i)) else str_nat (nat i))"

subsection \<open>Variables, expressions and constraints of the linear program\<close>

text \<open>
  \<open>LpVariable.dicts(prefix, indices, ...)\<close> makes one variable object for each index and
  returns the dict from index to variable. A variable is identified by the call that made
  it and its index: \<open>Planted k\<close> is the one of \<open>LpVariable.dicts("planted", ...)\<close> at key
  \<open>k\<close>, \<open>Fallow w\<close> the one of \<open>LpVariable.dicts("fallow", ...)\<close> at week \<open>w\<close>. Both dicts
  are made with \<open>lowBound=0\<close>.
\<close>

datatype LpVariable = Planted string | Fallow int

definition LpVariable_dicts :: "('k \<Rightarrow> LpVariable) \<Rightarrow> 'k list \<Rightarrow> ('k \<times> LpVariable) list" where
  "LpVariable_dicts mk indices = fold (\<lambda>i d. AList.update i (mk i) d) indices []"

text \<open>
  The expressions that \<open>setup_problem\<close> builds: a variable, a number, \<open>lpSum\<close> of a list,
  a number times an expression, and the sum of two expressions. \<open>evaluate\<close> is the value
  of an expression under an assignment of the variables.
\<close>

datatype LpAffineExpression =
    Var LpVariable
  | Num real
  | lpSum "LpAffineExpression list"
  | Times real LpAffineExpression
  | Plus LpAffineExpression LpAffineExpression

fun evaluate :: "(LpVariable \<Rightarrow> real) \<Rightarrow> LpAffineExpression \<Rightarrow> real" where
  "evaluate a (Var v) = a v"
| "evaluate a (Num r) = r"
| "evaluate a (lpSum es) = sum_list (map (evaluate a) es)"
| "evaluate a (Times r e) = r * evaluate a e"
| "evaluate a (Plus e1 e2) = evaluate a e1 + evaluate a e2"

datatype LpConstraintSense = LpConstraintLE | LpConstraintEQ | LpConstraintGE

record LpConstraint =
  lhs :: LpAffineExpression
  sense :: LpConstraintSense
  rhs :: LpAffineExpression

definition satisfies :: "(LpVariable \<Rightarrow> real) \<Rightarrow> LpConstraint \<Rightarrow> bool" where
  "satisfies a c =
     (case sense c of
        LpConstraintLE \<Rightarrow> evaluate a (lhs c) \<le> evaluate a (rhs c)
      | LpConstraintEQ \<Rightarrow> evaluate a (lhs c) = evaluate a (rhs c)
      | LpConstraintGE \<Rightarrow> evaluate a (lhs c) \<ge> evaluate a (rhs c))"

text \<open>
  The problem: its objective (none until one is set) and its named constraints in the
  order they were added. How the solver library rewrites or checks the names is not
  modelled.
\<close>

record LpProblem =
  objective :: "LpAffineExpression option"
  constraints :: "(string \<times> LpConstraint) list"

definition LpProblem_init :: LpProblem where
  "LpProblem_init = \<lparr> objective = None, constraints = [] \<rparr>"

text \<open>\<open>prob += expression\<close> and \<open>prob += constraint, name\<close>.\<close>

definition iadd_objective :: "LpProblem \<Rightarrow> LpAffineExpression \<Rightarrow> LpProblem" where
  "iadd_objective prob e = prob\<lparr>objective := Some e\<rparr>"

definition iadd_constraint :: "LpProblem \<Rightarrow> LpConstraint \<Rightarrow> string \<Rightarrow> LpProblem" where
  "iadd_constraint prob c n = prob\<lparr>constraints := constraints prob @ [(n, c)]\<rparr>"

subsection \<open>Variable names\<close>

definition get_plant_variable_name :: "string \<Rightarrow> int \<Rightarrow> string" where
  "get_plant_variable_name crop week = crop @ ''_week_'' @ str_int week"

definition get_variable_names_for_weeks :: "string \<Rightarrow> int \<Rightarrow> int \<Rightarrow> string list" where
  "get_variable_names_for_weeks crop week_start week_end =
     map (get_plant_variable_name crop) (py_range week_start week_end)"

text \<open>The two methods of \<open>Garden\<close> that build the same names.\<close>

definition get_plant_weeks :: "Garden \<Rightarrow> string list" where
  "get_plant_weeks self =
     concat (map (\<lambda>c. map (\<lambda>w. c @ ''_week_'' @ str_int w) (py_range 0 (weeks (garden self))))
                 (get_plants self))"

definition get_weeks_for_plant :: "Garden \<Rightarrow> crop \<Rightarrow> string list" where
  "get_weeks_for_plant self p =
     map (\<lambda>w. name p @ ''_week_'' @ str_int w) (py_range 0 (weeks (garden self)))"

subsection \<open>The temporal overlap resolver\<close>

definition get_plants_living_in_week ::
  "crop \<Rightarrow> int \<Rightarrow> (string \<times> LpVariable) list \<Rightarrow> error + LpVariable list" where
  "get_plants_living_in_week crop week plant_vars =
     (let earliest_planting = (week - lifespan crop) + 1;
          earliest_planting = (if earliest_planting < 0 then 0 else earliest_planting)
      in getitems plant_vars (get_variable_names_for_weeks (name crop) earliest_planting (week + 1)))"

subsection \<open>\<open>setup_problem\<close>\<close>

text \<open>
  \<open>setup_problem\<close> reads the module global \<open>num_weeks\<close>; it is the first argument of the
  functions below. The script sets it once, to \<open>garden.garden["weeks"]\<close> (line 109), so
  the model it builds for a garden \<open>g\<close> is \<open>setup_problem (weeks (garden g)) g\<close>.
  The \<open>Garden\<close> argument is called \<open>garden_obj\<close> (\<open>garden\<close> is its field).
\<close>

text \<open>Lines 18-19 and 20-22.\<close>

definition total_yield_expression ::
  "Garden \<Rightarrow> (string \<times> LpVariable) list \<Rightarrow> error + LpAffineExpression" where
  "total_yield_expression garden_obj plant_vars =
     and_then
       (comprehension
          (\<lambda>c. and_then (getitems plant_vars (get_weeks_for_plant garden_obj c))
                  (\<lambda>vs. Inr (Times (yield c) (lpSum (map Var vs)))))
          (crops garden_obj))
       (\<lambda>terms. Inr (lpSum terms))"

definition nitrogen_expression_of ::
  "int \<Rightarrow> Garden \<Rightarrow> (string \<times> LpVariable) list \<Rightarrow> error + LpAffineExpression" where
  "nitrogen_expression_of num_weeks garden_obj plant_vars =
     and_then
       (comprehension
          (\<lambda>c. and_then (getitems plant_vars (get_variable_names_for_weeks (name c) 0 num_weeks))
                  (\<lambda>vs. Inr (Times (delta_n c) (lpSum (map Var vs)))))
          (crops garden_obj))
       (\<lambda>terms. Inr (lpSum terms))"

text \<open>Line 24: the penalty for fallow land, over the values of \<open>fallow_vars\<close>.\<close>

definition fallow_penalty :: "(int \<times> LpVariable) list \<Rightarrow> LpAffineExpression" where
  "fallow_penalty fallow_vars = lpSum (map (\<lambda>f. Times 0.1 (Var f)) (map snd fallow_vars))"

text \<open>
  \<open>c["water_use"] * lpSum(get_plants_living_in_week(c, w, plant_vars))\<close> over a list of
  crops (lines 43 and 48).
\<close>

definition water_terms ::
  "int \<Rightarrow> (string \<times> LpVariable) list \<Rightarrow> crop list \<Rightarrow> error + LpAffineExpression list" where
  "water_terms w plant_vars cs =
     comprehension
       (\<lambda>c. and_then (get_plants_living_in_week c w plant_vars)
               (\<lambda>vs. Inr (Times (water_use c) (lpSum (map Var vs)))))
       cs"

text \<open>
  The body of the loop over the weeks (lines 28-49). The list \<open>week_plantings\<close> of line 31
  is never read and is left out.
\<close>

definition week_body ::
  "Garden \<Rightarrow> (string \<times> LpVariable) list \<Rightarrow> (int \<times> LpVariable) list \<Rightarrow>
   int \<Rightarrow> LpProblem \<Rightarrow> error + LpProblem" where
  "week_body garden_obj plant_vars fallow_vars w prob =
     and_then
       (comprehension
          (\<lambda>crop. and_then (get_plants_living_in_week crop w plant_vars)
                     (\<lambda>crops_living_in_week. Inr (lpSum (map Var crops_living_in_week))))
          (crops garden_obj))
       (\<lambda>prev_planting_expressions.
     and_then (getitem fallow_vars w)
       (\<lambda>fallow_w.
     let prob1 = iadd_constraint prob
                   \<lparr> lhs = Plus (lpSum prev_planting_expressions) (Var fallow_w),
                     sense = LpConstraintEQ,
                     rhs = Num (sqft (garden garden_obj)) \<rparr>
                   (''land_constraint_week_'' @ str_int w)
     in
     and_then (water_terms w plant_vars (get_greywater_plants garden_obj))
       (\<lambda>greywater_terms.
     let prob2 = iadd_constraint prob1
                   \<lparr> lhs = lpSum greywater_terms,
                     sense = LpConstraintGE,
                     rhs = Num (greywater (garden garden_obj)) \<rparr>
                   (''use_all_greywater_week_'' @ str_int w)
     in
     and_then (water_terms w plant_vars (crops garden_obj))
       (\<lambda>all_terms.
     Inr (iadd_constraint prob2
            \<lparr> lhs = lpSum all_terms,
              sense = LpConstraintLE,
              rhs = Num (greywater (garden garden_obj) + rainwater (garden garden_obj)) \<rparr>
            (''total_water_constraint_week_'' @ str_int w))))))"

text \<open>The body of the loop over the yield targets (lines 52-61).\<close>

definition yield_body ::
  "int \<Rightarrow> Garden \<Rightarrow> (string \<times> LpVariable) list \<Rightarrow> LpAffineExpression \<Rightarrow>
   yield_spec \<Rightarrow> LpProblem \<Rightarrow> error + LpProblem" where
  "yield_body num_weeks garden_obj plant_vars total_yield yield_spec prob =
     (let target = plant yield_spec in
      and_then
        (comprehension
           (\<lambda>(c, y). and_then (getitems plant_vars (get_variable_names_for_weeks c 0 num_weeks))
                        (\<lambda>vs. Inr (Times y (lpSum (map Var vs)))))
           (get_target_yields garden_obj target))
        (\<lambda>terms.
      let sum_contributing_crops = lpSum terms;
          prob1 = iadd_constraint prob
                    \<lparr> lhs = sum_contributing_crops, sense = LpConstraintGE,
                      rhs = Num (min_yield yield_spec) \<rparr>
                    (target @ ''_min_yield'');
          prob2 = (case max_yield yield_spec of
                     None \<Rightarrow> prob1
                   | Some m \<Rightarrow> iadd_constraint prob1
                                \<lparr> lhs = sum_contributing_crops, sense = LpConstraintLE,
                                  rhs = Num m \<rparr>
                                (target @ ''_max_yield''));
          prob3 = (case max_yield_pct yield_spec of
                     None \<Rightarrow> prob2
                   | Some pct \<Rightarrow> iadd_constraint prob2
                                  \<lparr> lhs = sum_contributing_crops, sense = LpConstraintLE,
                                    rhs = Times pct total_yield \<rparr>
                                  (target @ ''_max_yield_percent''))
      in Inr prob3))"

text \<open>
  Lines 67-69: the variables that the harvestability constraint of a crop sums, that is
  the value of \<open>plants_that_overlap\<close> at line 70. \<open>xs[1:]\<close> is \<open>drop 1 xs\<close>.
\<close>

definition plants_that_overlap_of ::
  "int \<Rightarrow> crop \<Rightarrow> (string \<times> LpVariable) list \<Rightarrow> error + LpVariable list" where
  "plants_that_overlap_of num_weeks crop plant_vars =
     and_then (get_plants_living_in_week crop (num_weeks - 1) plant_vars)
       (\<lambda>plants_that_overlap.
          Inr (if lifespan crop \<le> num_weeks \<and> length plants_that_overlap > 0
               then drop 1 plants_that_overlap
               else plants_that_overlap))"

text \<open>The body of the loop of lines 64-70.\<close>

definition harvest_body ::
  "int \<Rightarrow> (string \<times> LpVariable) list \<Rightarrow> crop \<Rightarrow> LpProblem \<Rightarrow> error + LpProblem" where
  "harvest_body num_weeks plant_vars crop prob =
     (if \<not> is_cover_crop crop then
        and_then (plants_that_overlap_of num_weeks crop plant_vars)
          (\<lambda>plants_that_overlap.
             Inr (iadd_constraint prob
                    \<lparr> lhs = lpSum (map Var plants_that_overlap), sense = LpConstraintEQ,
                      rhs = Num 0 \<rparr>
                    (''latest_planting_'' @ name crop)))
      else Inr prob)"

text \<open>Lines 14 and 15: the two dicts of variables.\<close>

definition plant_vars_for :: "Garden \<Rightarrow> (string \<times> LpVariable) list" where
  "plant_vars_for garden_obj = LpVariable_dicts Planted (get_plant_weeks garden_obj)"

definition fallow_vars_for :: "int \<Rightarrow> (int \<times> LpVariable) list" where
  "fallow_vars_for num_weeks = LpVariable_dicts Fallow (py_range 0 num_weeks)"

text \<open>
  What \<open>setup_problem\<close> returns: the problem, \<open>total_yield\<close>, \<open>nitrogen_expression\<close>,
  \<open>plant_vars\<close> and \<open>fallow_vars\<close>.
\<close>

record setup_result =
  prob_of :: LpProblem
  total_yield_of :: LpAffineExpression
  nitrogen_of :: LpAffineExpression
  plant_vars_of :: "(string \<times> LpVariable) list"
  fallow_vars_of :: "(int \<times> LpVariable) list"

definition setup_problem :: "int \<Rightarrow> Garden \<Rightarrow> error + setup_result" where
  "setup_problem num_weeks garden_obj =
     (let prob = LpProblem_init;
          plant_vars = plant_vars_for garden_obj;
          fallow_vars = fallow_vars_for num_weeks
      in
      and_then (total_yield_expression garden_obj plant_vars)
        (\<lambda>total_yield.
      and_then (nitrogen_expression_of num_weeks garden_obj plant_vars)
        (\<lambda>nitrogen_expression.
      let fallow_expression = fallow_penalty fallow_vars;
          prob0 = iadd_objective prob (Plus total_yield (Times 0.1 nitrogen_expression))
      in
      and_then (for_loop (week_body garden_obj plant_vars fallow_vars) (py_range 0 num_weeks) prob0)
        (\<lambda>prob1.
      and_then (for_loop (yield_body num_weeks garden_obj plant_vars total_yield)
                  (yields (garden garden_obj)) prob1)
        (\<lambda>prob2.
      and_then (for_loop (harvest_body num_weeks plant_vars) (crops garden_obj) prob2)
        (\<lambda>prob3.
      Inr \<lparr> prob_of = iadd_constraint prob3
                        \<lparr> lhs = nitrogen_expression, sense = LpConstraintGE, rhs = Num 0 \<rparr>
                        ''nitrogen constraints'',
            total_yield_of = total_yield,
            nitrogen_of = nitrogen_expression,
            plant_vars_of = plant_vars,
            fallow_vars_of = fallow_vars \<rparr>))))))"

subsection \<open>The script: primary run and sensitivity analysis\<close>

text \<open>
  The script holds one \<open>Garden\<close> object, in the variable \<open>garden\<close>. Objects live in a
  store, from references to objects, and the variable holds a reference, so that changing
  an object in place and working on a copy of it are different things.
  Line 109 sets \<open>num_weeks\<close>, line 112 builds the primary model.
\<close>

type_synonym ref = nat

type_synonym store = "ref \<Rightarrow> Garden"

definition primary_run :: "ref \<Rightarrow> store \<Rightarrow> error + setup_result" where
  "primary_run garden_ref st =
     (let num_weeks = weeks (garden (st garden_ref))
      in setup_problem num_weeks (st garden_ref))"

text \<open>
  Lines 167-168: \<open>garden.garden["rainwater"] = garden.garden["rainwater"] * 0.5\<close>, then
  \<open>setup_problem(garden)\<close>. The result is the store after the two statements and what
  \<open>setup_problem\<close> returned.
\<close>

definition sensitivity_analysis :: "int \<Rightarrow> ref \<Rightarrow> store \<Rightarrow> store \<times> (error + setup_result)" where
  "sensitivity_analysis num_weeks garden_ref st =
     (let g = st garden_ref;
          st1 = st(garden_ref := g\<lparr>garden := (garden g)\<lparr>rainwater := rainwater (garden g) * 0.5\<rparr>\<rparr>)
      in (st1, setup_problem num_weeks (st1 garden_ref)))"

section \<open>The alive plantings and the constraints in closed form\<close>

text \<open>
  The planting weeks that the specification calls alive in week \<open>w\<close>: those from
  \<open>max(0, w - lifespan + 1)\<close> to \<open>w\<close>; and the variable of a crop's planting in week \<open>p\<close>.
\<close>

definition alive_weeks :: "crop \<Rightarrow> int \<Rightarrow> int list" where
  "alive_weeks c w = [max 0 (w - lifespan c + 1)..w]"

definition planted_in :: "crop \<Rightarrow> int \<Rightarrow> LpVariable" where
  "planted_in c p = Planted (get_plant_variable_name (name c) p)"

text \<open>
  What the loops of \<open>setup_problem\<close> add to the problem, written without the lookups:
  the three constraints of a week, the sum of all the planting variables of an entry, the
  constraints of a yield target, the planting weeks that the harvestability constraint of
  a crop sums and that constraint, and the two expressions of the objective. They are
  shown below to be what the code builds.
\<close>

definition week_constraints :: "Garden \<Rightarrow> int \<Rightarrow> (string \<times> LpConstraint) list" where
  "week_constraints g w =
     [(''land_constraint_week_'' @ str_int w,
       \<lparr> lhs = Plus (lpSum (map (\<lambda>c. lpSum (map (\<lambda>p. Var (planted_in c p)) (alive_weeks c w)))
                                 (crops g)))
                     (Var (Fallow w)),
         sense = LpConstraintEQ,
         rhs = Num (sqft (garden g)) \<rparr>),
      (''use_all_greywater_week_'' @ str_int w,
       \<lparr> lhs = lpSum (map (\<lambda>c. Times (water_use c)
                                  (lpSum (map (\<lambda>p. Var (planted_in c p)) (alive_weeks c w))))
                           [c \<leftarrow> crops g. greywater_ok c]),
         sense = LpConstraintGE,
         rhs = Num (greywater (garden g)) \<rparr>),
      (''total_water_constraint_week_'' @ str_int w,
       \<lparr> lhs = lpSum (map (\<lambda>c. Times (water_use c)
                                  (lpSum (map (\<lambda>p. Var (planted_in c p)) (alive_weeks c w))))
                           (crops g)),
         sense = LpConstraintLE,
         rhs = Num (greywater (garden g) + rainwater (garden g)) \<rparr>)]"

definition all_weeks_sum :: "int \<Rightarrow> string \<Rightarrow> LpAffineExpression" where
  "all_weeks_sum num_weeks n =
     lpSum (map (\<lambda>p. Var (Planted (get_plant_variable_name n p))) [0..num_weeks - 1])"

definition harvest_weeks :: "int \<Rightarrow> crop \<Rightarrow> int list" where
  "harvest_weeks num_weeks c =
     (if 0 < lifespan c \<and> lifespan c \<le> num_weeks
      then [num_weeks - lifespan c + 1..num_weeks - 1]
      else [max 0 (num_weeks - lifespan c)..num_weeks - 1])"

definition yield_constraints ::
  "int \<Rightarrow> Garden \<Rightarrow> LpAffineExpression \<Rightarrow> yield_spec \<Rightarrow> (string \<times> LpConstraint) list" where
  "yield_constraints num_weeks g total_yield ys =
     (let sum_contributing_crops =
            lpSum (map (\<lambda>(c, y). Times y (all_weeks_sum num_weeks c))
                       (get_target_yields g (plant ys)))
      in [(plant ys @ ''_min_yield'',
           \<lparr> lhs = sum_contributing_crops, sense = LpConstraintGE, rhs = Num (min_yield ys) \<rparr>)] @
         (case max_yield ys of
            None \<Rightarrow> []
          | Some m \<Rightarrow> [(plant ys @ ''_max_yield'',
                        \<lparr> lhs = sum_contributing_crops, sense = LpConstraintLE, rhs = Num m \<rparr>)]) @
         (case max_yield_pct ys of
            None \<Rightarrow> []
          | Some pct \<Rightarrow> [(plant ys @ ''_max_yield_percent'',
                          \<lparr> lhs = sum_contributing_crops, sense = LpConstraintLE,
                            rhs = Times pct total_yield \<rparr>)]))"

definition harvest_constraints :: "int \<Rightarrow> crop \<Rightarrow> (string \<times> LpConstraint) list" where
  "harvest_constraints num_weeks c =
     (if is_cover_crop c then []
      else [(''latest_planting_'' @ name c,
             \<lparr> lhs = lpSum (map (\<lambda>p. Var (planted_in c p)) (harvest_weeks num_weeks c)),
               sense = LpConstraintEQ, rhs = Num 0 \<rparr>)])"

definition total_yield_built :: "Garden \<Rightarrow> LpAffineExpression" where
  "total_yield_built g =
     lpSum (map (\<lambda>c. Times (yield c) (all_weeks_sum (weeks (garden g)) (name c))) (crops g))"

definition nitrogen_built :: "Garden \<Rightarrow> LpAffineExpression" where
  "nitrogen_built g =
     lpSum (map (\<lambda>c. Times (delta_n c) (all_weeks_sum (weeks (garden g)) (name c))) (crops g))"

text \<open>All the constraints of the problem in the order of \<open>setup_problem\<close>, and its result.\<close>

definition model_constraints :: "Garden \<Rightarrow> (string \<times> LpConstraint) list" where
  "model_constraints g =
     concat (map (week_constraints g) (py_range 0 (weeks (garden g)))) @
     concat (map (yield_constraints (weeks (garden g)) g (total_yield_built g)) (yields (garden g))) @
     concat (map (harvest_constraints (weeks (garden g))) (crops g)) @
     [(''nitrogen constraints'',
       \<lparr> lhs = nitrogen_built g, sense = LpConstraintGE, rhs = Num 0 \<rparr>)]"

definition built_result :: "Garden \<Rightarrow> setup_result" where
  "built_result g =
     \<lparr> prob_of = \<lparr> objective = Some (Plus (total_yield_built g) (Times 0.1 (nitrogen_built g))),
                   constraints = model_constraints g \<rparr>,
       total_yield_of = total_yield_built g,
       nitrogen_of = nitrogen_built g,
       plant_vars_of = plant_vars_for g,
       fallow_vars_of = fallow_vars_for (weeks (garden g)) \<rparr>"

section \<open>The catalog entries as the specification words them\<close>

text \<open>
  The entry that the specification describes for a base crop \<open>C\<close> and a base crop \<open>P\<close>
  named in the companions of \<open>C\<close>, with the floor division of HOL (which returns 0 on a
  zero divisor, where the code raises).
\<close>

definition compound_entry :: "crop \<Rightarrow> crop \<Rightarrow> crop" where
  "compound_entry C P =
     (let longest = max (lifespan C) (lifespan P);
          C_multiplier = longest div lifespan C;
          P_multiplier = longest div lifespan P
      in \<lparr> name = name C @ ''-'' @ name P,
           companions = [],
           greywater_ok = (greywater_ok C \<and> greywater_ok P),
           yield = of_int C_multiplier * yield C + of_int P_multiplier * yield P,
           water_use = water_use C + water_use P,
           delta_n = delta_n C * of_int C_multiplier + delta_n P * of_int P_multiplier,
           lifespan = longest,
           is_cover_crop = (is_cover_crop C \<and> is_cover_crop P),
           compound = Some \<lparr> plant_1_name = name C, plant_2_name = name P,
                             plant_1_yield = of_int C_multiplier * yield C,
                             plant_2_yield = of_int P_multiplier * yield P \<rparr> \<rparr>)"

text \<open>
  The ordered pairs of crops, in the order of the two loops, whose second crop is named
  in the companions of the first.
\<close>

definition companion_pairs :: "crop list \<Rightarrow> crop list \<Rightarrow> (crop \<times> crop) list" where
  "companion_pairs self_crops cs =
     [(C, P) \<leftarrow> List.product cs self_crops. name P \<in> set (companions C)]"

section \<open>Sample gardens\<close>

text \<open>
  Two base crops that name each other (and \<open>B\<close> names \<open>C\<close>, which is no crop), the two
  entries that the expansion makes of them, and the one-crop garden of four weeks.
\<close>

definition lettuce :: crop where
  "lettuce = \<lparr> name = ''lettuce'', companions = [], greywater_ok = True, yield = 1,
               water_use = 1, delta_n = 0, lifespan = 2, is_cover_crop = False,
               compound = None \<rparr>"

definition lettuce_garden_file :: garden_schema where
  "lettuce_garden_file =
     \<lparr> sqft = 100, weeks = 4, greywater = 0, rainwater = 1000,
       yields = [\<lparr> plant = ''lettuce'', min_yield = 50, max_yield = None,
                   max_yield_pct = None \<rparr>] \<rparr>"

definition lettuce_garden :: Garden where
  "lettuce_garden = \<lparr> garden = lettuce_garden_file, crops = [lettuce] \<rparr>"

definition sample_A :: crop where
  "sample_A = \<lparr> name = ''A'', companions = [''B''], greywater_ok = True, yield = 10,
                water_use = 2, delta_n = - 1, lifespan = 4, is_cover_crop = False,
                compound = None \<rparr>"

definition sample_B :: crop where
  "sample_B = \<lparr> name = ''B'', companions = [''A'', ''C''], greywater_ok = False, yield = 3,
                water_use = 1, delta_n = 2, lifespan = 2, is_cover_crop = True,
                compound = None \<rparr>"

definition sample_AB :: crop where
  "sample_AB = \<lparr> name = ''A-B'', companions = [], greywater_ok = False, yield = 16,
                 water_use = 3, delta_n = 3, lifespan = 4, is_cover_crop = False,
                 compound = Some \<lparr> plant_1_name = ''A'', plant_2_name = ''B'',
                                   plant_1_yield = 10, plant_2_yield = 6 \<rparr> \<rparr>"

definition sample_BA :: crop where
  "sample_BA = \<lparr> name = ''B-A'', companions = [], greywater_ok = False, yield = 16,
                 water_use = 3, delta_n = 3, lifespan = 4, is_cover_crop = False,
                 compound = Some \<lparr> plant_1_name = ''B'', plant_2_name = ''A'',
                                   plant_1_yield = 6, plant_2_yield = 10 \<rparr> \<rparr>"

definition sample_garden :: Garden where
  "sample_garden = \<lparr> garden = lettuce_garden_file,
                      crops = [sample_A, sample_B, sample_AB, sample_BA] \<rparr>"

text \<open>A crop of lifespan 0 that names itself.\<close>

definition sample_Z :: crop where
  "sample_Z = \<lparr> name = ''Z'', companions = [''Z''], greywater_ok = True, yield = 1,
                water_use = 1, delta_n = 0, lifespan = 0, is_cover_crop = False,
                compound = None \<rparr>"

text \<open>
  A crop of lifespan 3 in a garden of six weeks; a garden of four weeks with a crop that
  fits the horizon, a cover crop and a crop that outlives the horizon; a store with two
  gardens; two assignments that differ on the fallow variables only.
\<close>

definition radish :: crop where
  "radish = \<lparr> name = ''radish'', companions = [], greywater_ok = False, yield = 2,
              water_use = 1, delta_n = - 1, lifespan = 3, is_cover_crop = False,
              compound = None \<rparr>"

definition radish_garden :: Garden where
  "radish_garden = \<lparr> garden = lettuce_garden_file\<lparr>weeks := 6\<rparr>, crops = [radish] \<rparr>"

definition clover :: crop where
  "clover = \<lparr> name = ''clover'', companions = [], greywater_ok = True, yield = 0,
              water_use = 1, delta_n = 3, lifespan = 9, is_cover_crop = True,
              compound = None \<rparr>"

definition pumpkin :: crop where
  "pumpkin = \<lparr> name = ''pumpkin'', companions = [], greywater_ok = False, yield = 5,
               water_use = 3, delta_n = - 2, lifespan = 9, is_cover_crop = False,
               compound = None \<rparr>"

definition mixed_garden :: Garden where
  "mixed_garden = \<lparr> garden = lettuce_garden_file, crops = [lettuce, clover, pumpkin] \<rparr>"

definition sample_store :: store where
  "sample_store r = (if r = 0 then lettuce_garden else sample_garden)"

definition everything_one :: "LpVariable \<Rightarrow> real" where
  "everything_one v = 1"

definition planted_one :: "LpVariable \<Rightarrow> real" where
  "planted_one v = (case v of Planted k \<Rightarrow> 1 | Fallow w \<Rightarrow> 0)"

section \<open>Properties of the catalog\<close>

lemma and_then_Inr [simp]: "and_then (Inr x) f = f x"
  by (simp add: and_then_def)

lemma and_then_Inl [simp]: "and_then (Inl e) f = Inl e"
  by (simp add: and_then_def)

lemma comprehension_Inr:
  "(\<And>x. x \<in> set xs \<Longrightarrow> f x = Inr (g x)) \<Longrightarrow> comprehension f xs = Inr (map g xs)"
  by (induction xs) simp_all

lemma comprehension_append:
  "comprehension f (xs @ ys) =
     and_then (comprehension f xs) (\<lambda>a. and_then (comprehension f ys) (\<lambda>b. Inr (a @ b)))"
proof (induction xs)
  case Nil
  show ?case by (cases "comprehension f ys") simp_all
next
  case (Cons x xs)
  show ?case
  proof (cases "f x")
    case (Inl e)
    then show ?thesis by simp
  next
    case (Inr y)
    then show ?thesis
      using Cons by (cases "comprehension f xs"; cases "comprehension f ys") simp_all
  qed
qed

lemma companions_loop_comprehension:
  "companions_loop crop ps acc =
     and_then (comprehension (compound_crop crop) ps) (\<lambda>cs. Inr (acc @ cs))"
proof (induction ps arbitrary: acc)
  case Nil
  show ?case by simp
next
  case (Cons p ps)
  show ?case
    by (cases "compound_crop crop p"; cases "comprehension (compound_crop crop) ps")
       (simp_all add: Cons)
qed

lemma companion_pairs_Cons:
  "companion_pairs all (c # cs) =
     map (Pair c) [p \<leftarrow> all. name p \<in> set (companions c)] @ companion_pairs all cs"
  by (simp add: companion_pairs_def filter_map comp_def)

lemma comprehension_map:
  "comprehension f (map h xs) = comprehension (\<lambda>x. f (h x)) xs"
  by (induction xs) simp_all

lemma crops_loop_comprehension:
  "crops_loop all cs acc =
     and_then (comprehension (\<lambda>(C, P). compound_crop C P) (companion_pairs all cs))
       (\<lambda>es. Inr (acc @ es))"
proof (induction cs arbitrary: acc)
  case Nil
  show ?case by (simp add: companion_pairs_def)
next
  case (Cons c cs)
  let ?ps = "[p \<leftarrow> all. name p \<in> set (companions c)]"
  show ?case
  proof (cases "comprehension (compound_crop c) ?ps")
    case (Inl e)
    then show ?thesis
      by (simp add: companions_loop_comprehension companion_pairs_Cons
          comprehension_append comprehension_map)
  next
    case (Inr es)
    then show ?thesis
      by (cases "comprehension (\<lambda>(C, P). compound_crop C P) (companion_pairs all cs)")
         (simp_all add: companions_loop_comprehension companion_pairs_Cons
          comprehension_append comprehension_map Cons)
  qed
qed

lemma compound_crop_entry:
  "lifespan C \<noteq> 0 \<Longrightarrow> lifespan P \<noteq> 0 \<Longrightarrow> compound_crop C P = Inr (compound_entry C P)"
  by (simp add: compound_crop_def compound_entry_def floordiv_def Let_def)

lemma compound_crop_error:
  "compound_crop C P = Inl e \<Longrightarrow> e = ZeroDivisionError \<and> (lifespan C = 0 \<or> lifespan P = 0)"
  by (auto simp: compound_crop_def floordiv_def Let_def split: if_splits)

text \<open>
  C3. When no plant has lifespan 0, the catalog after expansion is the loaded plants
  followed by exactly one compound entry for each ordered pair (C, P) of them with the
  name of P among the companions of C, in the order of the pairs; the entry has
  lifespan = max of the two lifespans, yield = C_multiplier * C.yield +
  P_multiplier * P.yield with the multipliers floor(lifespan / C.lifespan) and
  floor(lifespan / P.lifespan), plant_1_yield and plant_2_yield the two summands,
  delta_n = C.delta_n * C_multiplier + P.delta_n * P_multiplier, water_use the sum,
  greywater_ok and is_cover_crop the conjunctions, name "C-P", is_compound true and no
  companions. Nothing is merged: when A names B and B names A, both "A-B" and "B-A"
  are there.
\<close>

theorem expansion_creates_one_entry_per_ordered_pair:
  assumes "\<forall>p \<in> set plants. lifespan p \<noteq> 0"
  shows "Garden_init garden_file plants =
           Inr \<lparr> garden = garden_file,
                 crops = map (\<lambda>p. p\<lparr>compound := None\<rparr>) plants @
                         map (\<lambda>(C, P). compound_entry C P)
                           [(C, P) \<leftarrow> List.product (map (\<lambda>p. p\<lparr>compound := None\<rparr>) plants)
                                                   (map (\<lambda>p. p\<lparr>compound := None\<rparr>) plants).
                              name P \<in> set (companions C)] \<rparr>"
proof -
  let ?base = "map (\<lambda>p. p\<lparr>compound := None\<rparr>) plants"
  have nz: "\<And>c. c \<in> set ?base \<Longrightarrow> lifespan c \<noteq> 0"
    using assms by auto
  have "comprehension (\<lambda>(C, P). compound_crop C P) (companion_pairs ?base ?base) =
          Inr (map (\<lambda>(C, P). compound_entry C P) (companion_pairs ?base ?base))"
  proof (rule comprehension_Inr)
    fix x assume "x \<in> set (companion_pairs ?base ?base)"
    then have "fst x \<in> set ?base" "snd x \<in> set ?base"
      by (auto simp: companion_pairs_def)
    then have "compound_crop (fst x) (snd x) = Inr (compound_entry (fst x) (snd x))"
      by (intro compound_crop_entry nz)
    then show "(case x of (C, P) \<Rightarrow> compound_crop C P) = Inr (case x of (C, P) \<Rightarrow> compound_entry C P)"
      by (simp add: case_prod_beta)
  qed
  then show ?thesis
    by (simp add: Garden_init_def crops_loop_comprehension companion_pairs_def Let_def)
qed


theorem expansion_witness:
  "lifespan sample_A \<noteq> 0 \<and> lifespan sample_B \<noteq> 0 \<and>
   Garden_init lettuce_garden_file [sample_A, sample_B] = Inr sample_garden"
proof -
  have h: "\<forall>p \<in> set [sample_A, sample_B]. lifespan p \<noteq> 0"
    by (simp add: sample_A_def sample_B_def)
  show ?thesis
    using h expansion_creates_one_entry_per_ordered_pair [OF h, of lettuce_garden_file]
    by (simp add: sample_A_def sample_B_def sample_AB_def sample_BA_def sample_garden_def
        compound_entry_def)
qed

text \<open>
  C10. For a name that no catalog entry has, \<open>get_crop_by_name\<close> raises IndexError; for
  a name that some entry has, it returns the first entry of that name in catalog order.
\<close>

theorem get_crop_by_name_first_match:
  "(n \<notin> name ` set (crops self) \<longrightarrow> get_crop_by_name self n = Inl IndexError) \<and>
   (n \<in> name ` set (crops self) \<longrightarrow>
      (\<exists>before c after. crops self = before @ c # after \<and> name c = n \<and>
         (\<forall>x \<in> set before. name x \<noteq> n) \<and> get_crop_by_name self n = Inr c))"
proof (intro conjI impI)
  assume "n \<notin> name ` set (crops self)"
  then have "[c \<leftarrow> crops self. name c = n] = []"
    by (auto simp: filter_empty_conv)
  then show "get_crop_by_name self n = Inl IndexError"
    by (simp add: get_crop_by_name_def)
next
  assume "n \<in> name ` set (crops self)"
  then have "\<exists>x \<in> set (crops self). name x = n" by auto
  then obtain before c after where
    split: "crops self = before @ c # after" "name c = n" "\<forall>x \<in> set before. name x \<noteq> n"
    by (auto simp: split_list_first_prop_iff)
  then have "[c \<leftarrow> crops self. name c = n] = c # [c \<leftarrow> after. name c = n]"
    by (simp add: filter_empty_conv)
  then have "get_crop_by_name self n = Inr c"
    by (simp add: get_crop_by_name_def)
  with split show "\<exists>before c after. crops self = before @ c # after \<and> name c = n \<and>
         (\<forall>x \<in> set before. name x \<noteq> n) \<and> get_crop_by_name self n = Inr c"
    by blast
qed

theorem get_crop_by_name_witness:
  "''C'' \<notin> name ` set (crops sample_garden) \<and>
   get_crop_by_name sample_garden ''C'' = Inl IndexError \<and>
   ''B'' \<in> name ` set (crops sample_garden) \<and>
   (\<exists>before c after. crops sample_garden = before @ c # after \<and> name c = ''B'' \<and>
      (\<forall>x \<in> set before. name x \<noteq> ''B'') \<and> get_crop_by_name sample_garden ''B'' = Inr c)"
proof -
  have a: "''C'' \<notin> name ` set (crops sample_garden)"
    by (simp add: sample_garden_def sample_A_def sample_B_def sample_AB_def sample_BA_def)
  have b: "''B'' \<in> name ` set (crops sample_garden)"
    by (simp add: sample_garden_def sample_A_def sample_B_def sample_AB_def sample_BA_def)
  show ?thesis
    using a b get_crop_by_name_first_match [of "''C''" sample_garden]
      get_crop_by_name_first_match [of "''B''" sample_garden]
    by blast
qed

lemma get_target_yields_loop_other:
  "n \<notin> name ` set cs \<Longrightarrow> map_of (get_target_yields_loop cs target acc) n = map_of acc n"
  by (induction cs arbitrary: acc) (auto simp: update_conv' split: option.splits)

lemma get_target_yields_loop_entry:
  "distinct (map name cs) \<Longrightarrow> c \<in> set cs \<Longrightarrow>
   map_of (get_target_yields_loop cs target acc) (name c) =
     (case compound c of
        None \<Rightarrow> (if name c = target then Some (yield c) else map_of acc (name c))
      | Some p \<Rightarrow>
          (if plant_1_name p = target then Some (plant_1_yield p)
           else if plant_2_name p = target then Some (plant_2_yield p)
           else map_of acc (name c)))"
proof (induction cs arbitrary: acc)
  case Nil
  then show ?case by simp
next
  case (Cons x cs)
  show ?case
  proof (cases "c = x")
    case True
    with Cons.prems have "name c \<notin> name ` set cs" by auto
    then show ?thesis
      using True by (simp add: get_target_yields_loop_other update_conv' split: option.splits)
  next
    case False
    with Cons.prems have in_cs: "c \<in> set cs" and dist: "distinct (map name cs)"
      and ne: "name x \<noteq> name c"
      by auto
    define acc' where "acc' =
       (case compound x of
          None \<Rightarrow> (if name x = target then AList.update (name x) (yield x) acc else acc)
        | Some p \<Rightarrow>
            (if plant_1_name p = target then AList.update (name x) (plant_1_yield p) acc
             else if plant_2_name p = target then AList.update (name x) (plant_2_yield p) acc
             else acc))"
    have same: "map_of acc' (name c) = map_of acc (name c)"
      using ne by (auto simp: acc'_def update_conv' split: option.splits)
    have step: "get_target_yields_loop (x # cs) target acc = get_target_yields_loop cs target acc'"
      by (simp add: acc'_def)
    show ?thesis
      unfolding step Cons.IH [OF dist in_cs, of acc'] same ..
  qed
qed

text \<open>
  C5. In a catalog whose names are distinct, for every target the mapping of
  \<open>get_target_yields\<close> sends a non-compound entry named like the target to its yield, a
  compound entry whose plant_1_name is the target to its plant_1_yield, otherwise a
  compound entry whose plant_2_name is the target to its plant_2_yield, and holds no
  key for an entry that matches neither, nor for any name outside the catalog.
\<close>

theorem yield_attribution_mapping:
  assumes "distinct (map name (crops self))"
  shows "(\<forall>c \<in> set (crops self).
            (compound c = None \<and> name c = target \<longrightarrow>
               map_of (get_target_yields self target) (name c) = Some (yield c)) \<and>
            (\<forall>p. compound c = Some p \<and> plant_1_name p = target \<longrightarrow>
               map_of (get_target_yields self target) (name c) = Some (plant_1_yield p)) \<and>
            (\<forall>p. compound c = Some p \<and> plant_1_name p \<noteq> target \<and> plant_2_name p = target \<longrightarrow>
               map_of (get_target_yields self target) (name c) = Some (plant_2_yield p)) \<and>
            ((compound c = None \<and> name c \<noteq> target) \<or>
             (\<exists>p. compound c = Some p \<and> plant_1_name p \<noteq> target \<and> plant_2_name p \<noteq> target) \<longrightarrow>
               map_of (get_target_yields self target) (name c) = None)) \<and>
         (\<forall>n. n \<notin> name ` set (crops self) \<longrightarrow> map_of (get_target_yields self target) n = None)"
proof -
  have entry: "\<And>c. c \<in> set (crops self) \<Longrightarrow>
     map_of (get_target_yields self target) (name c) =
       (case compound c of
          None \<Rightarrow> (if name c = target then Some (yield c) else None)
        | Some p \<Rightarrow>
            (if plant_1_name p = target then Some (plant_1_yield p)
             else if plant_2_name p = target then Some (plant_2_yield p)
             else None))"
    using get_target_yields_loop_entry [OF assms, of _ target "[]"]
    by (simp add: get_target_yields_def split: option.splits)
  have other: "\<And>n. n \<notin> name ` set (crops self) \<Longrightarrow>
     map_of (get_target_yields self target) n = None"
    by (simp add: get_target_yields_def get_target_yields_loop_other)
  show ?thesis
  proof (intro conjI ballI allI impI)
    fix n assume "n \<notin> name ` set (crops self)"
    then show "map_of (get_target_yields self target) n = None"
      by (rule other)
  next
    fix c assume "c \<in> set (crops self)" "compound c = None \<and> name c = target"
    then show "map_of (get_target_yields self target) (name c) = Some (yield c)"
      using entry [of c] by simp
  next
    fix c p assume "c \<in> set (crops self)" "compound c = Some p \<and> plant_1_name p = target"
    then show "map_of (get_target_yields self target) (name c) = Some (plant_1_yield p)"
      using entry [of c] by simp
  next
    fix c p assume "c \<in> set (crops self)"
      "compound c = Some p \<and> plant_1_name p \<noteq> target \<and> plant_2_name p = target"
    then show "map_of (get_target_yields self target) (name c) = Some (plant_2_yield p)"
      using entry [of c] by simp
  next
    fix c assume "c \<in> set (crops self)"
      "(compound c = None \<and> name c \<noteq> target) \<or>
       (\<exists>p. compound c = Some p \<and> plant_1_name p \<noteq> target \<and> plant_2_name p \<noteq> target)"
    then show "map_of (get_target_yields self target) (name c) = None"
      using entry [of c] by auto
  qed
qed

theorem yield_attribution_witness:
  "distinct (map name (crops sample_garden)) \<and>
   map_of (get_target_yields sample_garden ''B'') ''B'' = Some 3 \<and>
   map_of (get_target_yields sample_garden ''B'') ''A-B'' = Some 6 \<and>
   map_of (get_target_yields sample_garden ''B'') ''B-A'' = Some 6 \<and>
   map_of (get_target_yields sample_garden ''B'') ''A'' = None \<and>
   map_of (get_target_yields sample_garden ''B'') ''C'' = None"
proof -
  have h: "distinct (map name (crops sample_garden))"
    by (simp add: sample_garden_def sample_A_def sample_B_def sample_AB_def sample_BA_def)
  show ?thesis
    using h yield_attribution_mapping [OF h, of "''B''"]
    by (simp add: sample_garden_def sample_A_def sample_B_def sample_AB_def sample_BA_def)
qed

lemma comprehension_Inr_all2:
  "comprehension f xs = Inr ys \<Longrightarrow> list_all2 (\<lambda>x y. f x = Inr y) xs ys"
proof (induction xs arbitrary: ys)
  case Nil
  then show ?case by simp
next
  case (Cons x xs)
  then show ?case
    by (cases "f x"; cases "comprehension f xs") auto
qed

lemma comprehension_Inl_ex:
  "comprehension f xs = Inl e \<Longrightarrow> \<exists>x \<in> set xs. f x = Inl e"
proof (induction xs)
  case Nil
  then show ?case by simp
next
  case (Cons x xs)
  then show ?case
    by (cases "f x"; cases "comprehension f xs") auto
qed

lemma companion_pairs_load:
  "companion_pairs (map (\<lambda>p. p\<lparr>compound := None\<rparr>) ps) (map (\<lambda>p. p\<lparr>compound := None\<rparr>) qs) =
     map (\<lambda>(C, P). (C\<lparr>compound := None\<rparr>, P\<lparr>compound := None\<rparr>)) (companion_pairs ps qs)"
proof (induction qs)
  case Nil
  show ?case by (simp add: companion_pairs_def)
next
  case (Cons q qs)
  show ?case
    by (simp add: companion_pairs_Cons Cons filter_map comp_def)
qed

lemma compound_crop_load:
  "compound_crop (C\<lparr>compound := x\<rparr>) (P\<lparr>compound := y\<rparr>) = compound_crop C P"
  by (simp add: compound_crop_def floordiv_def Let_def)

lemma compound_crop_fields:
  "compound_crop C P = Inr e \<Longrightarrow>
     name e = name C @ ''-'' @ name P \<and> companions e = [] \<and>
     (\<exists>p. compound e = Some p \<and> plant_1_name p = name C \<and> plant_2_name p = name P)"
  by (auto simp: compound_crop_def floordiv_def Let_def split: if_splits)

lemma in_companion_pairs:
  "(C, P) \<in> set (companion_pairs all cs) \<longleftrightarrow>
     C \<in> set cs \<and> P \<in> set all \<and> name P \<in> set (companions C)"
  by (auto simp: companion_pairs_def)

lemma comprehension_pairs_load:
  "comprehension (\<lambda>(C, P). compound_crop C P)
     (companion_pairs (map (\<lambda>p. p\<lparr>compound := None\<rparr>) plants)
                      (map (\<lambda>p. p\<lparr>compound := None\<rparr>) plants)) =
   comprehension (\<lambda>(C, P). compound_crop C P) (companion_pairs plants plants)"
proof -
  have "(\<lambda>x. (case (case x of (C, P) \<Rightarrow> (C\<lparr>compound := None\<rparr>, P\<lparr>compound := None\<rparr>)) of
               (C, P) \<Rightarrow> compound_crop C P)) = (\<lambda>(C, P). compound_crop C P)"
    by (auto simp: fun_eq_iff compound_crop_load)
  then show ?thesis
    by (simp add: companion_pairs_load comprehension_map)
qed

lemma Garden_init_cases:
  "Garden_init garden_file plants =
     (case comprehension (\<lambda>(C, P). compound_crop C P) (companion_pairs plants plants) of
        Inl e \<Rightarrow> Inl e
      | Inr es \<Rightarrow> Inr \<lparr> garden = garden_file,
                        crops = map (\<lambda>p. p\<lparr>compound := None\<rparr>) plants @ es \<rparr>)"
  unfolding Garden_init_def Let_def crops_loop_comprehension comprehension_pairs_load
  by (simp add: and_then_def split: sum.splits)

lemma list_all2_right_member:
  "list_all2 R xs ys \<Longrightarrow> y \<in> set ys \<Longrightarrow> \<exists>x \<in> set xs. R x y"
  by (induction rule: list_all2_induct) auto

text \<open>
  C9. A companion name that no loaded plant has is skipped without an error, and the
  companions are matched against the loaded plants only. When \<open>Garden.__init__\<close> returns,
  the catalog is the loaded plants followed by as many entries as there are ordered
  pairs (C, P) of loaded plants with the name of P among the companions of C, each of
  them the compound of such a pair, with no companions of its own; so no entry stands for
  an unmatched name, and no entry is composed from a compound entry. When it raises,
  the error is the division by a zero lifespan of such a matched pair.
\<close>

theorem unmatched_companions_are_ignored:
  "(Garden_init garden_file plants = Inr g \<longrightarrow>
      take (length plants) (crops g) = map (\<lambda>p. p\<lparr>compound := None\<rparr>) plants \<and>
      length (crops g) = length plants + length (companion_pairs plants plants) \<and>
      (\<forall>e \<in> set (drop (length plants) (crops g)).
         \<exists>C \<in> set plants. \<exists>P \<in> set plants.
           name P \<in> set (companions C) \<and> compound_crop C P = Inr e \<and>
           name e = name C @ ''-'' @ name P \<and> companions e = [] \<and>
           (\<exists>p. compound e = Some p \<and> plant_1_name p = name C \<and> plant_2_name p = name P))) \<and>
   (Garden_init garden_file plants = Inl err \<longrightarrow>
      err = ZeroDivisionError \<and>
      (\<exists>C \<in> set plants. \<exists>P \<in> set plants.
         name P \<in> set (companions C) \<and> (lifespan C = 0 \<or> lifespan P = 0)))"
proof (intro conjI impI)
  assume ok: "Garden_init garden_file plants = Inr g"
  then obtain es where
    es: "comprehension (\<lambda>(C, P). compound_crop C P) (companion_pairs plants plants) = Inr es"
    and g: "g = \<lparr> garden = garden_file, crops = map (\<lambda>p. p\<lparr>compound := None\<rparr>) plants @ es \<rparr>"
    by (auto simp: Garden_init_cases split: sum.splits)
  have all2: "list_all2 (\<lambda>x y. (case x of (C, P) \<Rightarrow> compound_crop C P) = Inr y)
                (companion_pairs plants plants) es"
    using es by (rule comprehension_Inr_all2)
  show "take (length plants) (crops g) = map (\<lambda>p. p\<lparr>compound := None\<rparr>) plants"
    by (simp add: g)
  show "length (crops g) = length plants + length (companion_pairs plants plants)"
    using all2 by (simp add: g list_all2_lengthD)
  show "\<forall>e \<in> set (drop (length plants) (crops g)).
         \<exists>C \<in> set plants. \<exists>P \<in> set plants.
           name P \<in> set (companions C) \<and> compound_crop C P = Inr e \<and>
           name e = name C @ ''-'' @ name P \<and> companions e = [] \<and>
           (\<exists>p. compound e = Some p \<and> plant_1_name p = name C \<and> plant_2_name p = name P)"
  proof
    fix e assume "e \<in> set (drop (length plants) (crops g))"
    then have "e \<in> set es" by (simp add: g)
    then obtain x where x: "x \<in> set (companion_pairs plants plants)"
      and made: "(case x of (C, P) \<Rightarrow> compound_crop C P) = Inr e"
      using list_all2_right_member [OF all2] by blast
    obtain C P where CP: "x = (C, P)" by (cases x)
    from x CP have mem: "C \<in> set plants" "P \<in> set plants" "name P \<in> set (companions C)"
      by (simp_all add: in_companion_pairs)
    from made CP have cc: "compound_crop C P = Inr e" by simp
    from mem cc compound_crop_fields [OF cc]
    show "\<exists>C \<in> set plants. \<exists>P \<in> set plants.
           name P \<in> set (companions C) \<and> compound_crop C P = Inr e \<and>
           name e = name C @ ''-'' @ name P \<and> companions e = [] \<and>
           (\<exists>p. compound e = Some p \<and> plant_1_name p = name C \<and> plant_2_name p = name P)"
      by blast
  qed
next
  assume bad: "Garden_init garden_file plants = Inl err"
  then have "comprehension (\<lambda>(C, P). compound_crop C P) (companion_pairs plants plants) = Inl err"
    by (auto simp: Garden_init_cases split: sum.splits)
  then obtain x where x: "x \<in> set (companion_pairs plants plants)"
    and raised: "(case x of (C, P) \<Rightarrow> compound_crop C P) = Inl err"
    by (auto dest: comprehension_Inl_ex)
  obtain C P where CP: "x = (C, P)" by (cases x)
  from x CP have mem: "C \<in> set plants" "P \<in> set plants" "name P \<in> set (companions C)"
    by (simp_all add: in_companion_pairs)
  from raised CP have "compound_crop C P = Inl err" by simp
  then have "err = ZeroDivisionError" "lifespan C = 0 \<or> lifespan P = 0"
    by (auto dest: compound_crop_error)
  with mem show "err = ZeroDivisionError"
    "\<exists>C \<in> set plants. \<exists>P \<in> set plants.
         name P \<in> set (companions C) \<and> (lifespan C = 0 \<or> lifespan P = 0)"
    by blast+
qed

lemma Garden_init_sample:
  "Garden_init lettuce_garden_file [sample_A, sample_B] = Inr sample_garden"
  by (simp add: Garden_init_def companion_pairs_def compound_crop_def floordiv_def
      sample_A_def sample_B_def sample_AB_def sample_BA_def sample_garden_def)

lemma Garden_init_sample_Z:
  "Garden_init lettuce_garden_file [sample_Z] = Inl ZeroDivisionError"
  by (simp add: Garden_init_def compound_crop_def floordiv_def sample_Z_def)

theorem unmatched_companions_witness:
  "Garden_init lettuce_garden_file [sample_A, sample_B] = Inr sample_garden \<and>
   ''C'' \<in> set (companions sample_B) \<and>
   ''C'' \<notin> name ` set [sample_A, sample_B] \<and>
   length (crops sample_garden) =
     2 + length (companion_pairs [sample_A, sample_B] [sample_A, sample_B]) \<and>
   map name (drop 2 (crops sample_garden)) = [''A-B'', ''B-A''] \<and>
   Garden_init lettuce_garden_file [sample_Z] = Inl ZeroDivisionError \<and>
   (\<exists>C \<in> set [sample_Z]. \<exists>P \<in> set [sample_Z].
      name P \<in> set (companions C) \<and> (lifespan C = 0 \<or> lifespan P = 0))"
proof -
  have ok: "Garden_init lettuce_garden_file [sample_A, sample_B] = Inr sample_garden"
    by (rule Garden_init_sample)
  have bad: "Garden_init lettuce_garden_file [sample_Z] = Inl ZeroDivisionError"
    by (rule Garden_init_sample_Z)
  have len: "length (crops sample_garden) =
     length [sample_A, sample_B] + length (companion_pairs [sample_A, sample_B] [sample_A, sample_B])"
    using unmatched_companions_are_ignored
      [of lettuce_garden_file "[sample_A, sample_B]" sample_garden] ok
    by blast
  have zero: "\<exists>C \<in> set [sample_Z]. \<exists>P \<in> set [sample_Z].
      name P \<in> set (companions C) \<and> (lifespan C = 0 \<or> lifespan P = 0)"
    using unmatched_companions_are_ignored
      [of lettuce_garden_file "[sample_Z]" _ ZeroDivisionError] bad
    by blast
  show ?thesis
    using ok bad len zero
    by (simp add: sample_A_def sample_B_def sample_AB_def sample_BA_def sample_garden_def)
qed

section \<open>Properties of the model builder\<close>

lemma map_of_fold_update:
  "map_of (fold (\<lambda>i d. AList.update i (mk i) d) ks acc) k =
     (if k \<in> set ks then Some (mk k) else map_of acc k)"
  by (induction ks arbitrary: acc) (simp_all add: update_conv')

lemma map_of_LpVariable_dicts:
  "map_of (LpVariable_dicts mk ks) k = (if k \<in> set ks then Some (mk k) else None)"
  by (simp add: LpVariable_dicts_def map_of_fold_update)

lemma getitems_Inr:
  "(\<And>k. k \<in> set ks \<Longrightarrow> map_of d k = Some (f k)) \<Longrightarrow> getitems d ks = Inr (map f ks)"
  unfolding getitems_def by (rule comprehension_Inr) (simp add: getitem_def)

lemma getitems_dicts:
  "set ks \<subseteq> set keys \<Longrightarrow> getitems (LpVariable_dicts mk keys) ks = Inr (map mk ks)"
  by (rule getitems_Inr) (auto simp: map_of_LpVariable_dicts)

lemma set_py_range: "set (py_range a b) = {a..<b}"
  by (auto simp: py_range_def)

lemma variable_name_in_plant_weeks:
  assumes "c \<in> set (crops g)" "0 \<le> p" "p < weeks (garden g)"
  shows "get_plant_variable_name (name c) p \<in> set (get_plant_weeks g)"
proof -
  let ?names = "\<lambda>n. map (\<lambda>w. n @ ''_week_'' @ str_int w) (py_range 0 (weeks (garden g)))"
  have "p \<in> set (py_range 0 (weeks (garden g)))"
    using assms by (simp add: set_py_range)
  then have a: "get_plant_variable_name (name c) p \<in> set (?names (name c))"
    unfolding set_map get_plant_variable_name_def by (rule imageI)
  have b: "?names (name c) \<in> set (map ?names (get_plants g))"
    using assms(1) unfolding get_plants_def set_map by (intro imageI)
  have "get_plant_variable_name (name c) p \<in> \<Union> (set ` set (map ?names (get_plants g)))"
    using a b by blast
  then show ?thesis
    unfolding get_plant_weeks_def set_concat .
qed

lemma living_in_week_general:
  assumes "\<And>p. max 0 (w - lifespan crop + 1) \<le> p \<Longrightarrow> p \<le> w \<Longrightarrow>
             map_of plant_vars (get_plant_variable_name (name crop) p) = Some (V p)"
  shows "get_plants_living_in_week crop w plant_vars =
           Inr (map V [max 0 (w - lifespan crop + 1)..w])"
proof -
  have e: "(if w - lifespan crop + 1 < 0 then 0 else w - lifespan crop + 1) =
           max 0 (w - lifespan crop + 1)"
    by simp
  have "comprehension (getitem plant_vars)
          (map (get_plant_variable_name (name crop)) [max 0 (w - lifespan crop + 1)..w]) =
        comprehension (\<lambda>p. getitem plant_vars (get_plant_variable_name (name crop) p))
          [max 0 (w - lifespan crop + 1)..w]"
    by (simp add: comprehension_map)
  also have "\<dots> = Inr (map V [max 0 (w - lifespan crop + 1)..w])"
    by (rule comprehension_Inr) (simp add: getitem_def assms)
  finally show ?thesis
    by (simp add: get_plants_living_in_week_def Let_def e get_variable_names_for_weeks_def
        py_range_def getitems_def)
qed

lemma living_in_week_built:
  assumes "c \<in> set (crops g)" "w < weeks (garden g)"
  shows "get_plants_living_in_week c w (plant_vars_for g) =
           Inr (map (planted_in c) (alive_weeks c w))"
  unfolding alive_weeks_def
proof (rule living_in_week_general)
  fix p assume "max 0 (w - lifespan c + 1) \<le> p" "p \<le> w"
  then have "get_plant_variable_name (name c) p \<in> set (get_plant_weeks g)"
    using assms by (intro variable_name_in_plant_weeks) auto
  then show "map_of (plant_vars_for g) (get_plant_variable_name (name c) p) = Some (planted_in c p)"
    by (simp add: plant_vars_for_def map_of_LpVariable_dicts planted_in_def)
qed


lemma for_loop_appends:
  assumes "\<And>x s. x \<in> set xs \<Longrightarrow> body x s = Inr (s\<lparr>constraints := constraints s @ f x\<rparr>)"
  shows "for_loop body xs s = Inr (s\<lparr>constraints := constraints s @ concat (map f xs)\<rparr>)"
  using assms
proof (induction xs arbitrary: s)
  case Nil
  show ?case by simp
next
  case (Cons x xs)
  have step: "body x s = Inr (s\<lparr>constraints := constraints s @ f x\<rparr>)"
    by (rule Cons.prems) simp
  have rest: "for_loop body xs (s\<lparr>constraints := constraints s @ f x\<rparr>) =
      Inr (s\<lparr>constraints := constraints s @ f x\<rparr>
            \<lparr>constraints := constraints (s\<lparr>constraints := constraints s @ f x\<rparr>) @ concat (map f xs)\<rparr>)"
    by (rule Cons.IH) (simp add: Cons.prems)
  show ?case
    by (simp add: step rest)
qed

lemma getitem_fallow:
  "0 \<le> w \<Longrightarrow> w < num_weeks \<Longrightarrow>
   getitem (fallow_vars_for num_weeks) w = Inr (Fallow w)"
  by (simp add: getitem_def fallow_vars_for_def map_of_LpVariable_dicts set_py_range)

lemma water_terms_built:
  assumes "set cs \<subseteq> set (crops g)" "w < weeks (garden g)"
  shows "water_terms w (plant_vars_for g) cs =
     Inr (map (\<lambda>c. Times (water_use c) (lpSum (map (\<lambda>p. Var (planted_in c p)) (alive_weeks c w)))) cs)"
  unfolding water_terms_def
proof (rule comprehension_Inr)
  fix c assume "c \<in> set cs"
  then have "c \<in> set (crops g)" using assms by auto
  then show "and_then (get_plants_living_in_week c w (plant_vars_for g))
          (\<lambda>vs. Inr (Times (water_use c) (lpSum (map Var vs)))) =
         Inr (Times (water_use c) (lpSum (map (\<lambda>p. Var (planted_in c p)) (alive_weeks c w))))"
    using assms by (simp add: living_in_week_built comp_def)
qed

lemma week_body_built:
  assumes "0 \<le> w" "w < weeks (garden g)"
  shows "week_body g (plant_vars_for g) (fallow_vars_for (weeks (garden g))) w prob =
           Inr (prob\<lparr>constraints := constraints prob @ week_constraints g w\<rparr>)"
proof -
  have prev: "comprehension
          (\<lambda>crop. and_then (get_plants_living_in_week crop w (plant_vars_for g))
                     (\<lambda>crops_living_in_week. Inr (lpSum (map Var crops_living_in_week))))
          (crops g) =
        Inr (map (\<lambda>c. lpSum (map (\<lambda>p. Var (planted_in c p)) (alive_weeks c w))) (crops g))"
    by (rule comprehension_Inr) (simp add: living_in_week_built assms comp_def)
  have grey: "water_terms w (plant_vars_for g) (get_greywater_plants g) =
     Inr (map (\<lambda>c. Times (water_use c) (lpSum (map (\<lambda>p. Var (planted_in c p)) (alive_weeks c w))))
            [c \<leftarrow> crops g. greywater_ok c])"
    unfolding get_greywater_plants_def by (rule water_terms_built) (use assms in auto)
  have total: "water_terms w (plant_vars_for g) (crops g) =
     Inr (map (\<lambda>c. Times (water_use c) (lpSum (map (\<lambda>p. Var (planted_in c p)) (alive_weeks c w))))
            (crops g))"
    by (rule water_terms_built) (use assms in auto)
  show ?thesis
    by (simp add: week_body_def prev grey total getitem_fallow assms week_constraints_def
        iadd_constraint_def Let_def)
qed


lemma getitems_all_weeks:
  assumes "n \<in> name ` set (crops g)"
  shows "getitems (plant_vars_for g) (get_variable_names_for_weeks n 0 (weeks (garden g))) =
           Inr (map (\<lambda>p. Planted (get_plant_variable_name n p)) [0..weeks (garden g) - 1])"
proof -
  from assms obtain c where c: "c \<in> set (crops g)" "n = name c" by auto
  have "getitems (plant_vars_for g)
          (map (get_plant_variable_name n) [0..weeks (garden g) - 1]) =
        comprehension (\<lambda>p. getitem (plant_vars_for g) (get_plant_variable_name n p))
          [0..weeks (garden g) - 1]"
    by (simp add: getitems_def comprehension_map)
  also have "\<dots> = Inr (map (\<lambda>p. Planted (get_plant_variable_name n p)) [0..weeks (garden g) - 1])"
  proof (rule comprehension_Inr)
    fix p assume "p \<in> set [0..weeks (garden g) - 1]"
    then have "get_plant_variable_name (name c) p \<in> set (get_plant_weeks g)"
      using c by (intro variable_name_in_plant_weeks) auto
    then show "getitem (plant_vars_for g) (get_plant_variable_name n p) =
        Inr (Planted (get_plant_variable_name n p))"
      by (simp add: getitem_def plant_vars_for_def map_of_LpVariable_dicts c)
  qed
  finally show ?thesis
    by (simp add: get_variable_names_for_weeks_def py_range_def)
qed

lemma get_weeks_for_plant_names:
  "get_weeks_for_plant g c = get_variable_names_for_weeks (name c) 0 (weeks (garden g))"
  by (simp add: get_weeks_for_plant_def get_variable_names_for_weeks_def
      get_plant_variable_name_def)

lemma total_yield_expression_built:
  "total_yield_expression g (plant_vars_for g) = Inr (total_yield_built g)"
proof -
  have "comprehension
          (\<lambda>c. and_then (getitems (plant_vars_for g) (get_weeks_for_plant g c))
                  (\<lambda>vs. Inr (Times (yield c) (lpSum (map Var vs)))))
          (crops g) =
        Inr (map (\<lambda>c. Times (yield c) (all_weeks_sum (weeks (garden g)) (name c))) (crops g))"
    by (rule comprehension_Inr)
       (simp add: get_weeks_for_plant_names getitems_all_weeks all_weeks_sum_def comp_def)
  then show ?thesis
    by (simp add: total_yield_expression_def total_yield_built_def)
qed

lemma nitrogen_expression_built:
  "nitrogen_expression_of (weeks (garden g)) g (plant_vars_for g) = Inr (nitrogen_built g)"
proof -
  have "comprehension
          (\<lambda>c. and_then (getitems (plant_vars_for g)
                            (get_variable_names_for_weeks (name c) 0 (weeks (garden g))))
                  (\<lambda>vs. Inr (Times (delta_n c) (lpSum (map Var vs)))))
          (crops g) =
        Inr (map (\<lambda>c. Times (delta_n c) (all_weeks_sum (weeks (garden g)) (name c))) (crops g))"
    by (rule comprehension_Inr) (simp add: getitems_all_weeks all_weeks_sum_def comp_def)
  then show ?thesis
    by (simp add: nitrogen_expression_of_def nitrogen_built_def)
qed

lemma target_yields_keys:
  assumes "(n, y) \<in> set (get_target_yields g target)"
  shows "n \<in> name ` set (crops g)"
proof (rule ccontr)
  assume "n \<notin> name ` set (crops g)"
  then have "map_of (get_target_yields g target) n = None"
    by (simp add: get_target_yields_def get_target_yields_loop_other)
  then have "n \<notin> fst ` set (get_target_yields g target)"
    by (simp add: map_of_eq_None_iff)
  with assms show False by force
qed

lemma yield_body_built:
  "yield_body (weeks (garden g)) g (plant_vars_for g) total_yield ys prob =
     Inr (prob\<lparr>constraints := constraints prob @ yield_constraints (weeks (garden g)) g total_yield ys\<rparr>)"
proof -
  have terms: "comprehension
           (\<lambda>(c, y). and_then (getitems (plant_vars_for g)
                                  (get_variable_names_for_weeks c 0 (weeks (garden g))))
                        (\<lambda>vs. Inr (Times y (lpSum (map Var vs)))))
           (get_target_yields g (plant ys)) =
         Inr (map (\<lambda>(c, y). Times y (all_weeks_sum (weeks (garden g)) c))
                (get_target_yields g (plant ys)))"
  proof (rule comprehension_Inr)
    fix x assume x: "x \<in> set (get_target_yields g (plant ys))"
    obtain n y where ny: "x = (n, y)" by (cases x)
    with x have "n \<in> name ` set (crops g)" by (auto dest: target_yields_keys)
    then show "(case x of (c, y) \<Rightarrow>
           and_then (getitems (plant_vars_for g)
                       (get_variable_names_for_weeks c 0 (weeks (garden g))))
             (\<lambda>vs. Inr (Times y (lpSum (map Var vs))))) =
          Inr (case x of (c, y) \<Rightarrow> Times y (all_weeks_sum (weeks (garden g)) c))"
      by (simp add: ny getitems_all_weeks all_weeks_sum_def comp_def)
  qed
  show ?thesis
    by (simp add: yield_body_def terms yield_constraints_def iadd_constraint_def Let_def
        split: option.splits)
qed

lemma alive_final_week:
  "alive_weeks c (num_weeks - 1) = [max 0 (num_weeks - lifespan c)..num_weeks - 1]"
  by (simp add: alive_weeks_def)

lemma drop_1_upto: "i \<le> j \<Longrightarrow> drop (Suc 0) [i..j] = [i + 1..j]"
  by (simp add: upto_rec1)

lemma plants_that_overlap_built:
  assumes "c \<in> set (crops g)"
  shows "plants_that_overlap_of (weeks (garden g)) c (plant_vars_for g) =
           Inr (map (planted_in c) (harvest_weeks (weeks (garden g)) c))"
proof -
  let ?W = "weeks (garden g)"
  have alive: "get_plants_living_in_week c (?W - 1) (plant_vars_for g) =
      Inr (map (planted_in c) [max 0 (?W - lifespan c)..?W - 1])"
    using living_in_week_built [OF assms, of "?W - 1"] by (simp add: alive_final_week)
  show ?thesis
  proof (cases "0 < lifespan c \<and> lifespan c \<le> ?W")
    case True
    then have "max 0 (?W - lifespan c) = ?W - lifespan c" "?W - lifespan c \<le> ?W - 1"
      by auto
    then show ?thesis
      using True
      by (simp add: plants_that_overlap_of_def alive harvest_weeks_def drop_map drop_1_upto)
  next
    case False
    then have "lifespan c \<le> ?W \<Longrightarrow> [max 0 (?W - lifespan c)..?W - 1] = []"
      by auto
    then show ?thesis
      using False
      by (auto simp: plants_that_overlap_of_def alive harvest_weeks_def)
  qed
qed

lemma harvest_body_built:
  assumes "c \<in> set (crops g)"
  shows "harvest_body (weeks (garden g)) (plant_vars_for g) c prob =
           Inr (prob\<lparr>constraints := constraints prob @ harvest_constraints (weeks (garden g)) c\<rparr>)"
  by (simp add: harvest_body_def plants_that_overlap_built [OF assms] harvest_constraints_def
      iadd_constraint_def comp_def)

lemma setup_problem_built:
  "setup_problem (weeks (garden g)) g = Inr (built_result g)"
proof -
  let ?W = "weeks (garden g)"
  have weeks_loop: "\<And>prob. for_loop (week_body g (plant_vars_for g) (fallow_vars_for ?W)) (py_range 0 ?W) prob =
      Inr (prob\<lparr>constraints := constraints prob @ concat (map (week_constraints g) (py_range 0 ?W))\<rparr>)"
    by (rule for_loop_appends) (simp add: week_body_built set_py_range)
  have yields_loop: "\<And>prob. for_loop (yield_body ?W g (plant_vars_for g) (total_yield_built g)) (yields (garden g)) prob =
      Inr (prob\<lparr>constraints := constraints prob @
             concat (map (yield_constraints ?W g (total_yield_built g)) (yields (garden g)))\<rparr>)"
    by (rule for_loop_appends) (simp add: yield_body_built)
  have harvest_loop: "\<And>prob. for_loop (harvest_body ?W (plant_vars_for g)) (crops g) prob =
      Inr (prob\<lparr>constraints := constraints prob @ concat (map (harvest_constraints ?W) (crops g))\<rparr>)"
    by (rule for_loop_appends) (simp add: harvest_body_built)
  show ?thesis
    by (simp add: setup_problem_def Let_def total_yield_expression_built nitrogen_expression_built
        weeks_loop yields_loop harvest_loop iadd_objective_def iadd_constraint_def
        LpProblem_init_def model_constraints_def built_result_def)
qed

lemma built_result_fields:
  "constraints (prob_of (built_result g)) = model_constraints g"
  "objective (prob_of (built_result g)) =
     Some (Plus (total_yield_built g) (Times 0.1 (nitrogen_built g)))"
  "total_yield_of (built_result g) = total_yield_built g"
  "nitrogen_of (built_result g) = nitrogen_built g"
  "plant_vars_of (built_result g) = plant_vars_for g"
  "fallow_vars_of (built_result g) = fallow_vars_for (weeks (garden g))"
  by (simp_all add: built_result_def)

lemma evaluate_all_weeks_sum:
  "evaluate a (all_weeks_sum num_weeks n) =
     (\<Sum>p\<leftarrow>[0..num_weeks - 1]. a (Planted (get_plant_variable_name n p)))"
  by (simp add: all_weeks_sum_def comp_def)

lemma evaluate_total_yield_built:
  "evaluate a (total_yield_built g) =
     (\<Sum>c\<leftarrow>crops g. yield c * (\<Sum>p\<leftarrow>[0..weeks (garden g) - 1]. a (planted_in c p)))"
  by (simp add: total_yield_built_def evaluate_all_weeks_sum comp_def planted_in_def)

lemma evaluate_nitrogen_built:
  "evaluate a (nitrogen_built g) =
     (\<Sum>c\<leftarrow>crops g. delta_n c * (\<Sum>p\<leftarrow>[0..weeks (garden g) - 1]. a (planted_in c p)))"
  by (simp add: nitrogen_built_def evaluate_all_weeks_sum comp_def planted_in_def)

lemma week_constraints_in_model:
  "0 \<le> w \<Longrightarrow> w < weeks (garden g) \<Longrightarrow> set (week_constraints g w) \<subseteq> set (model_constraints g)"
  by (auto simp: model_constraints_def set_py_range)

lemma harvest_constraints_in_model:
  "c \<in> set (crops g) \<Longrightarrow>
   set (harvest_constraints (weeks (garden g)) c) \<subseteq> set (model_constraints g)"
  by (auto simp: model_constraints_def)

text \<open>
  C4. For every crop and every week \<open>w\<close>, when \<open>plant_vars\<close> holds a variable under the
  name of each planting week \<open>p\<close> of the crop from \<open>max(0, w - lifespan + 1)\<close> to \<open>w\<close>, the
  temporal overlap resolver returns exactly those variables, in the order of the weeks
  (it holds for every lifespan and week, so for a positive lifespan and \<open>w \<ge> 0\<close>). For
  lifespan 3 these are the weeks 3, 4, 5 at week 5 and the weeks 0, 1 at week 1.
\<close>

theorem overlap_resolver_interval:
  assumes "\<forall>p \<in> set [max 0 (w - lifespan crop + 1)..w].
             map_of plant_vars (get_plant_variable_name (name crop) p) = Some (V p)"
  shows "get_plants_living_in_week crop w plant_vars =
           Inr (map V [max 0 (w - lifespan crop + 1)..w])"
  by (rule living_in_week_general) (use assms in auto)

lemma str_int_digit:
  "str_int 0 = ''0''" "str_int 1 = ''1''" "str_int 2 = ''2''" "str_int 3 = ''3''"
  "str_int 4 = ''4''" "str_int 5 = ''5''"
  by (simp_all add: str_int_def str_nat.simps)

lemma radish_plant_vars:
  assumes "0 \<le> p" "p < 6"
  shows "map_of (plant_vars_for radish_garden) (get_plant_variable_name (name radish) p) =
           Some (planted_in radish p)"
proof -
  have "get_plant_variable_name (name radish) p \<in> set (get_plant_weeks radish_garden)"
    by (rule variable_name_in_plant_weeks)
       (use assms in \<open>simp_all add: radish_garden_def lettuce_garden_file_def\<close>)
  then show ?thesis
    by (simp add: plant_vars_for_def map_of_LpVariable_dicts planted_in_def)
qed

theorem overlap_resolver_witness:
  "get_plants_living_in_week radish 5 (plant_vars_for radish_garden) =
     Inr [Planted ''radish_week_3'', Planted ''radish_week_4'', Planted ''radish_week_5''] \<and>
   get_plants_living_in_week radish 1 (plant_vars_for radish_garden) =
     Inr [Planted ''radish_week_0'', Planted ''radish_week_1'']"
proof -
  have l: "lifespan radish = 3" by (simp add: radish_def)
  have h5: "\<forall>p \<in> set [max 0 (5 - lifespan radish + 1)..5].
      map_of (plant_vars_for radish_garden) (get_plant_variable_name (name radish) p) =
        Some (planted_in radish p)"
    by (auto simp: l intro: radish_plant_vars)
  have h1: "\<forall>p \<in> set [max 0 (1 - lifespan radish + 1)..1].
      map_of (plant_vars_for radish_garden) (get_plant_variable_name (name radish) p) =
        Some (planted_in radish p)"
    by (auto simp: l intro: radish_plant_vars)
  have w5: "[max 0 (5 - lifespan radish + 1)..5] = [3, 4, 5]"
    by (simp add: l upto_rec1)
  have w1: "[max 0 (1 - lifespan radish + 1)..1] = [0, 1]"
    by (simp add: l upto_rec1)
  show ?thesis
    using overlap_resolver_interval [OF h5] overlap_resolver_interval [OF h1]
    unfolding w5 w1
    by (simp add: planted_in_def get_plant_variable_name_def radish_def str_int_digit)
qed

lemma lettuce_alive_3: "alive_weeks lettuce 3 = [2, 3]"
  by (simp add: alive_weeks_def lettuce_def upto_rec1)

lemma lettuce_garden_fields:
  "weeks (garden lettuce_garden) = 4" "crops lettuce_garden = [lettuce]"
  "sqft (garden lettuce_garden) = 100" "greywater (garden lettuce_garden) = 0"
  by (simp_all add: lettuce_garden_def lettuce_garden_file_def)

lemma lettuce_planted_in:
  "planted_in lettuce 0 = Planted ''lettuce_week_0''"
  "planted_in lettuce 1 = Planted ''lettuce_week_1''"
  "planted_in lettuce 2 = Planted ''lettuce_week_2''"
  "planted_in lettuce 3 = Planted ''lettuce_week_3''"
  by (simp_all add: planted_in_def get_plant_variable_name_def lettuce_def str_int_digit)

text \<open>
  C6. \<open>setup_problem\<close> returns, and for every week \<open>w\<close> with \<open>0 \<le> w < weeks\<close> the problem
  holds a constraint named \<open>land_constraint_week_w\<close> that is an equality, whose left side
  is, under every assignment, the sum over all catalog entries of the plantings alive in
  week \<open>w\<close> plus the fallow variable of week \<open>w\<close>, and whose right side is \<open>sqft\<close>.
\<close>

theorem land_constraint_every_week:
  "\<exists>r. setup_problem (weeks (garden g)) g = Inr r \<and>
     (\<forall>w. 0 \<le> w \<and> w < weeks (garden g) \<longrightarrow>
        (\<exists>k. (''land_constraint_week_'' @ str_int w, k) \<in> set (constraints (prob_of r)) \<and>
             sense k = LpConstraintEQ \<and>
             (\<forall>a. evaluate a (lhs k) =
                    (\<Sum>c\<leftarrow>crops g. \<Sum>p\<leftarrow>alive_weeks c w. a (planted_in c p)) + a (Fallow w) \<and>
                  evaluate a (rhs k) = sqft (garden g))))"
proof (intro exI [of _ "built_result g"] conjI allI impI)
  show "setup_problem (weeks (garden g)) g = Inr (built_result g)"
    by (rule setup_problem_built)
next
  fix w assume w: "0 \<le> w \<and> w < weeks (garden g)"
  let ?k = "\<lparr> lhs = Plus (lpSum (map (\<lambda>c. lpSum (map (\<lambda>p. Var (planted_in c p)) (alive_weeks c w)))
                                 (crops g)))
                     (Var (Fallow w)),
         sense = LpConstraintEQ,
         rhs = Num (sqft (garden g)) \<rparr>"
  have "(''land_constraint_week_'' @ str_int w, ?k) \<in> set (week_constraints g w)"
    by (simp add: week_constraints_def)
  then have "(''land_constraint_week_'' @ str_int w, ?k) \<in> set (model_constraints g)"
    using week_constraints_in_model w by blast
  moreover have "\<forall>a. evaluate a (lhs ?k) =
       (\<Sum>c\<leftarrow>crops g. \<Sum>p\<leftarrow>alive_weeks c w. a (planted_in c p)) + a (Fallow w) \<and>
       evaluate a (rhs ?k) = sqft (garden g)"
    by (simp add: comp_def)
  ultimately show "\<exists>k. (''land_constraint_week_'' @ str_int w, k) \<in>
        set (constraints (prob_of (built_result g))) \<and>
        sense k = LpConstraintEQ \<and>
        (\<forall>a. evaluate a (lhs k) =
               (\<Sum>c\<leftarrow>crops g. \<Sum>p\<leftarrow>alive_weeks c w. a (planted_in c p)) + a (Fallow w) \<and>
             evaluate a (rhs k) = sqft (garden g))"
    unfolding built_result_fields by (intro exI [of _ ?k]) simp
qed

theorem land_constraint_witness:
  "\<exists>r. setup_problem 4 lettuce_garden = Inr r \<and>
     (\<exists>k. (''land_constraint_week_3'', k) \<in> set (constraints (prob_of r)) \<and>
          sense k = LpConstraintEQ \<and>
          (\<forall>a. evaluate a (lhs k) =
                 a (Planted ''lettuce_week_2'') + a (Planted ''lettuce_week_3'') + a (Fallow 3) \<and>
               evaluate a (rhs k) = 100))"
proof -
  from land_constraint_every_week [of lettuce_garden]
  obtain r where r: "setup_problem 4 lettuce_garden = Inr r"
    and every: "\<forall>w. 0 \<le> w \<and> w < 4 \<longrightarrow>
        (\<exists>k. (''land_constraint_week_'' @ str_int w, k) \<in> set (constraints (prob_of r)) \<and>
             sense k = LpConstraintEQ \<and>
             (\<forall>a. evaluate a (lhs k) =
                    (\<Sum>c\<leftarrow>[lettuce]. \<Sum>p\<leftarrow>alive_weeks c w. a (planted_in c p)) + a (Fallow w) \<and>
                  evaluate a (rhs k) = 100))"
    unfolding lettuce_garden_fields by blast
  have "(0::int) \<le> 3 \<and> (3::int) < 4" by simp
  with every have "\<exists>k. (''land_constraint_week_'' @ str_int 3, k) \<in> set (constraints (prob_of r)) \<and>
             sense k = LpConstraintEQ \<and>
             (\<forall>a. evaluate a (lhs k) =
                    (\<Sum>c\<leftarrow>[lettuce]. \<Sum>p\<leftarrow>alive_weeks c 3. a (planted_in c p)) + a (Fallow 3) \<and>
                  evaluate a (rhs k) = 100)"
    by blast
  then have "\<exists>k. (''land_constraint_week_3'', k) \<in> set (constraints (prob_of r)) \<and>
          sense k = LpConstraintEQ \<and>
          (\<forall>a. evaluate a (lhs k) =
                 a (Planted ''lettuce_week_2'') + a (Planted ''lettuce_week_3'') + a (Fallow 3) \<and>
               evaluate a (rhs k) = 100)"
    by (simp add: lettuce_alive_3 lettuce_planted_in str_int_digit)
  with r show ?thesis by blast
qed

text \<open>
  C8. \<open>setup_problem\<close> returns, and for every week \<open>w\<close> with \<open>0 \<le> w < weeks\<close>, the last
  week included, the problem holds a constraint named \<open>use_all_greywater_week_w\<close> of
  sense \<open>\<ge>\<close>, whose left side is, under every assignment, the sum over the crops with
  \<open>greywater_ok\<close> of \<open>water_use\<close> times the plantings alive in week \<open>w\<close>, and whose right
  side is the weekly greywater.
\<close>

theorem greywater_floor_every_week:
  "\<exists>r. setup_problem (weeks (garden g)) g = Inr r \<and>
     (\<forall>w. 0 \<le> w \<and> w < weeks (garden g) \<longrightarrow>
        (\<exists>k. (''use_all_greywater_week_'' @ str_int w, k) \<in> set (constraints (prob_of r)) \<and>
             sense k = LpConstraintGE \<and>
             (\<forall>a. evaluate a (lhs k) =
                    (\<Sum>c\<leftarrow>[c \<leftarrow> crops g. greywater_ok c].
                        water_use c * (\<Sum>p\<leftarrow>alive_weeks c w. a (planted_in c p))) \<and>
                  evaluate a (rhs k) = greywater (garden g))))"
proof (intro exI [of _ "built_result g"] conjI allI impI)
  show "setup_problem (weeks (garden g)) g = Inr (built_result g)"
    by (rule setup_problem_built)
next
  fix w assume w: "0 \<le> w \<and> w < weeks (garden g)"
  let ?k = "\<lparr> lhs = lpSum (map (\<lambda>c. Times (water_use c)
                                  (lpSum (map (\<lambda>p. Var (planted_in c p)) (alive_weeks c w))))
                           [c \<leftarrow> crops g. greywater_ok c]),
         sense = LpConstraintGE,
         rhs = Num (greywater (garden g)) \<rparr>"
  have "(''use_all_greywater_week_'' @ str_int w, ?k) \<in> set (week_constraints g w)"
    by (simp add: week_constraints_def)
  then have "(''use_all_greywater_week_'' @ str_int w, ?k) \<in> set (model_constraints g)"
    using week_constraints_in_model w by blast
  moreover have "\<forall>a. evaluate a (lhs ?k) =
       (\<Sum>c\<leftarrow>[c \<leftarrow> crops g. greywater_ok c].
           water_use c * (\<Sum>p\<leftarrow>alive_weeks c w. a (planted_in c p))) \<and>
       evaluate a (rhs ?k) = greywater (garden g)"
    by (simp add: comp_def)
  ultimately show "\<exists>k. (''use_all_greywater_week_'' @ str_int w, k) \<in>
        set (constraints (prob_of (built_result g))) \<and>
        sense k = LpConstraintGE \<and>
        (\<forall>a. evaluate a (lhs k) =
               (\<Sum>c\<leftarrow>[c \<leftarrow> crops g. greywater_ok c].
                   water_use c * (\<Sum>p\<leftarrow>alive_weeks c w. a (planted_in c p))) \<and>
             evaluate a (rhs k) = greywater (garden g))"
    unfolding built_result_fields by (intro exI [of _ ?k]) simp
qed

theorem greywater_floor_witness:
  "\<exists>r. setup_problem 4 lettuce_garden = Inr r \<and>
     (\<exists>k. (''use_all_greywater_week_3'', k) \<in> set (constraints (prob_of r)) \<and>
          sense k = LpConstraintGE \<and>
          (\<forall>a. evaluate a (lhs k) = a (Planted ''lettuce_week_2'') + a (Planted ''lettuce_week_3'') \<and>
               evaluate a (rhs k) = 0))"
proof -
  from greywater_floor_every_week [of lettuce_garden]
  obtain r where r: "setup_problem 4 lettuce_garden = Inr r"
    and every: "\<forall>w. 0 \<le> w \<and> w < 4 \<longrightarrow>
        (\<exists>k. (''use_all_greywater_week_'' @ str_int w, k) \<in> set (constraints (prob_of r)) \<and>
             sense k = LpConstraintGE \<and>
             (\<forall>a. evaluate a (lhs k) =
                    (\<Sum>c\<leftarrow>[c \<leftarrow> [lettuce]. greywater_ok c].
                        water_use c * (\<Sum>p\<leftarrow>alive_weeks c w. a (planted_in c p))) \<and>
                  evaluate a (rhs k) = 0))"
    unfolding lettuce_garden_fields by blast
  have "(0::int) \<le> 3 \<and> (3::int) < 4" by simp
  with every have "\<exists>k. (''use_all_greywater_week_'' @ str_int 3, k) \<in> set (constraints (prob_of r)) \<and>
             sense k = LpConstraintGE \<and>
             (\<forall>a. evaluate a (lhs k) =
                    (\<Sum>c\<leftarrow>[c \<leftarrow> [lettuce]. greywater_ok c].
                        water_use c * (\<Sum>p\<leftarrow>alive_weeks c 3. a (planted_in c p))) \<and>
                  evaluate a (rhs k) = 0)"
    by blast
  moreover have "greywater_ok lettuce" "water_use lettuce = 1"
    by (simp_all add: lettuce_def)
  ultimately have "\<exists>k. (''use_all_greywater_week_3'', k) \<in> set (constraints (prob_of r)) \<and>
          sense k = LpConstraintGE \<and>
          (\<forall>a. evaluate a (lhs k) = a (Planted ''lettuce_week_2'') + a (Planted ''lettuce_week_3'') \<and>
               evaluate a (rhs k) = 0)"
    by (simp add: lettuce_alive_3 lettuce_planted_in str_int_digit)
  with r show ?thesis by blast
qed

lemma update_fresh:
  "k \<notin> fst ` set al \<Longrightarrow> AList.update k v al = al @ [(k, v)]"
  by (induction al) auto

lemma fold_update_distinct:
  "distinct ks \<Longrightarrow> set ks \<inter> fst ` set acc = {} \<Longrightarrow>
   fold (\<lambda>i d. AList.update i (mk i) d) ks acc = acc @ map (\<lambda>k. (k, mk k)) ks"
proof (induction ks arbitrary: acc)
  case Nil
  show ?case by simp
next
  case (Cons k ks)
  from Cons.prems have fresh: "k \<notin> fst ` set acc" by auto
  have "set ks \<inter> fst ` set (acc @ [(k, mk k)]) = {}"
    using Cons.prems by auto
  with Cons.prems have "fold (\<lambda>i d. AList.update i (mk i) d) ks (acc @ [(k, mk k)]) =
      (acc @ [(k, mk k)]) @ map (\<lambda>k. (k, mk k)) ks"
    by (intro Cons.IH) auto
  then show ?case
    by (simp add: update_fresh [OF fresh])
qed

lemma fallow_vars_values:
  "map snd (fallow_vars_for num_weeks) = map Fallow [0..num_weeks - 1]"
  by (simp add: fallow_vars_for_def LpVariable_dicts_def py_range_def fold_update_distinct comp_def)

lemma evaluate_fallow_penalty:
  "evaluate a (fallow_penalty (fallow_vars_for num_weeks)) =
     (\<Sum>w\<leftarrow>[0..num_weeks - 1]. 0.1 * a (Fallow w))"
  by (simp add: fallow_penalty_def fallow_vars_values comp_def)

lemma evaluate_planted_only:
  assumes "\<forall>k. a (Planted k) = b (Planted k)"
  shows "evaluate a (all_weeks_sum num_weeks n) = evaluate b (all_weeks_sum num_weeks n)"
  using assms by (simp add: evaluate_all_weeks_sum)

text \<open>
  C7. \<open>setup_problem\<close> returns, and the objective of the problem is, under every
  assignment, \<open>total_yield + 0.1 * nitrogen_expression\<close>, where \<open>total_yield\<close> is the sum
  over the crops of the yield times the sum of all the planting variables of the crop
  (each planting counted once) and \<open>nitrogen_expression\<close> the same with \<open>delta_n\<close>. The
  penalty for fallow land, 0.1 times each fallow variable, is built but is no part of
  the objective: two assignments that agree on the planting variables give the objective
  the same value.
\<close>

theorem objective_is_yield_plus_tenth_nitrogen:
  "\<exists>r obj. setup_problem (weeks (garden g)) g = Inr r \<and>
     objective (prob_of r) = Some obj \<and>
     (\<forall>a. evaluate a obj = evaluate a (total_yield_of r) + 0.1 * evaluate a (nitrogen_of r) \<and>
          evaluate a (total_yield_of r) =
            (\<Sum>c\<leftarrow>crops g. yield c * (\<Sum>p\<leftarrow>[0..weeks (garden g) - 1]. a (planted_in c p))) \<and>
          evaluate a (nitrogen_of r) =
            (\<Sum>c\<leftarrow>crops g. delta_n c * (\<Sum>p\<leftarrow>[0..weeks (garden g) - 1]. a (planted_in c p))) \<and>
          evaluate a (fallow_penalty (fallow_vars_of r)) =
            (\<Sum>w\<leftarrow>[0..weeks (garden g) - 1]. 0.1 * a (Fallow w))) \<and>
     (\<forall>a b. (\<forall>k. a (Planted k) = b (Planted k)) \<longrightarrow> evaluate a obj = evaluate b obj)"
proof (intro exI [of _ "built_result g"]
    exI [of _ "Plus (total_yield_built g) (Times 0.1 (nitrogen_built g))"] conjI allI impI)
  show "setup_problem (weeks (garden g)) g = Inr (built_result g)"
    by (rule setup_problem_built)
  show "objective (prob_of (built_result g)) =
      Some (Plus (total_yield_built g) (Times 0.1 (nitrogen_built g)))"
    by (simp add: built_result_fields)
next
  fix a
  show "evaluate a (Plus (total_yield_built g) (Times 0.1 (nitrogen_built g))) =
      evaluate a (total_yield_of (built_result g)) + 0.1 * evaluate a (nitrogen_of (built_result g))"
    by (simp add: built_result_fields)
  show "evaluate a (total_yield_of (built_result g)) =
      (\<Sum>c\<leftarrow>crops g. yield c * (\<Sum>p\<leftarrow>[0..weeks (garden g) - 1]. a (planted_in c p)))"
    by (simp add: built_result_fields evaluate_total_yield_built)
  show "evaluate a (nitrogen_of (built_result g)) =
      (\<Sum>c\<leftarrow>crops g. delta_n c * (\<Sum>p\<leftarrow>[0..weeks (garden g) - 1]. a (planted_in c p)))"
    by (simp add: built_result_fields evaluate_nitrogen_built)
  show "evaluate a (fallow_penalty (fallow_vars_of (built_result g))) =
      (\<Sum>w\<leftarrow>[0..weeks (garden g) - 1]. 0.1 * a (Fallow w))"
    by (simp add: built_result_fields evaluate_fallow_penalty)
next
  fix a b :: "LpVariable \<Rightarrow> real"
  assume "\<forall>k. a (Planted k) = b (Planted k)"
  then show "evaluate a (Plus (total_yield_built g) (Times 0.1 (nitrogen_built g))) =
      evaluate b (Plus (total_yield_built g) (Times 0.1 (nitrogen_built g)))"
    by (simp add: evaluate_total_yield_built evaluate_nitrogen_built planted_in_def)
qed

lemma upto_0_3: "[0..3] = [0, 1, 2, 3::int]"
  by (simp add: upto_rec1)

theorem objective_witness:
  "\<exists>r obj. setup_problem 4 lettuce_garden = Inr r \<and>
     objective (prob_of r) = Some obj \<and>
     evaluate everything_one obj = 4 \<and>
     evaluate planted_one obj = 4 \<and>
     evaluate everything_one (fallow_penalty (fallow_vars_of r)) = 0.4 \<and>
     evaluate planted_one (fallow_penalty (fallow_vars_of r)) = 0"
proof -
  from objective_is_yield_plus_tenth_nitrogen [of lettuce_garden]
  obtain r obj where r: "setup_problem 4 lettuce_garden = Inr r"
    and obj: "objective (prob_of r) = Some obj"
    and vals: "\<forall>a. evaluate a obj = evaluate a (total_yield_of r) + 0.1 * evaluate a (nitrogen_of r) \<and>
          evaluate a (total_yield_of r) =
            (\<Sum>c\<leftarrow>[lettuce]. yield c * (\<Sum>p\<leftarrow>[0..4 - 1]. a (planted_in c p))) \<and>
          evaluate a (nitrogen_of r) =
            (\<Sum>c\<leftarrow>[lettuce]. delta_n c * (\<Sum>p\<leftarrow>[0..4 - 1]. a (planted_in c p))) \<and>
          evaluate a (fallow_penalty (fallow_vars_of r)) =
            (\<Sum>w\<leftarrow>[0..4 - 1]. 0.1 * a (Fallow w))"
    and same: "\<forall>a b. (\<forall>k. a (Planted k) = b (Planted k)) \<longrightarrow> evaluate a obj = evaluate b obj"
    unfolding lettuce_garden_fields by blast
  have agree: "\<forall>k. everything_one (Planted k) = planted_one (Planted k)"
    by (simp add: everything_one_def planted_one_def)
  have eq: "evaluate everything_one obj = evaluate planted_one obj"
    using same agree by blast
  have l: "yield lettuce = 1" "delta_n lettuce = 0"
    by (simp_all add: lettuce_def)
  have one: "evaluate everything_one obj = 4"
    using vals [rule_format, of everything_one]
    by (simp add: l everything_one_def upto_0_3)
  have pen1: "evaluate everything_one (fallow_penalty (fallow_vars_of r)) = 0.4"
    using vals [rule_format, of everything_one]
    by (simp add: everything_one_def upto_0_3)
  have pen0: "evaluate planted_one (fallow_penalty (fallow_vars_of r)) = 0"
    using vals [rule_format, of planted_one]
    by (simp add: planted_one_def upto_0_3)
  from r obj one eq pen1 pen0 show ?thesis by auto
qed

lemma harvest_weeks_cases:
  "lifespan c \<le> num_weeks \<and> alive_weeks c (num_weeks - 1) \<noteq> [] \<Longrightarrow>
     alive_weeks c (num_weeks - 1) = (num_weeks - lifespan c) # [num_weeks - lifespan c + 1..num_weeks - 1] \<and>
     harvest_weeks num_weeks c = [num_weeks - lifespan c + 1..num_weeks - 1]"
  "\<not> (lifespan c \<le> num_weeks \<and> alive_weeks c (num_weeks - 1) \<noteq> []) \<Longrightarrow>
     harvest_weeks num_weeks c = alive_weeks c (num_weeks - 1)"
proof -
  assume a: "lifespan c \<le> num_weeks \<and> alive_weeks c (num_weeks - 1) \<noteq> []"
  then have le: "\<not> num_weeks - 1 < max 0 (num_weeks - lifespan c)"
    unfolding alive_final_week upto_Nil by blast
  from a have fit: "lifespan c \<le> num_weeks" by blast
  from le fit have pos: "0 < lifespan c" "max 0 (num_weeks - lifespan c) = num_weeks - lifespan c"
    unfolding max_def by (auto split: if_splits)
  then show "alive_weeks c (num_weeks - 1) = (num_weeks - lifespan c) # [num_weeks - lifespan c + 1..num_weeks - 1] \<and>
     harvest_weeks num_weeks c = [num_weeks - lifespan c + 1..num_weeks - 1]"
    using a by (simp add: alive_final_week harvest_weeks_def upto_rec1)
next
  assume n: "\<not> (lifespan c \<le> num_weeks \<and> alive_weeks c (num_weeks - 1) \<noteq> [])"
  show "harvest_weeks num_weeks c = alive_weeks c (num_weeks - 1)"
  proof (cases "0 < lifespan c \<and> lifespan c \<le> num_weeks")
    case True
    then have "alive_weeks c (num_weeks - 1) \<noteq> []"
      by (simp add: alive_final_week)
    with n True show ?thesis by simp
  next
    case False
    then have "harvest_weeks num_weeks c = [max 0 (num_weeks - lifespan c)..num_weeks - 1]"
      unfolding harvest_weeks_def by (rule if_not_P)
    then show ?thesis by (simp only: alive_final_week)
  qed
qed

text \<open>
  C1, as amended. \<open>setup_problem\<close> returns, and for every catalog entry: a cover crop
  gets no harvestability constraint (the loop body leaves the problem as it is); a
  non-cover crop gets the constraint \<open>latest_planting_name\<close>, an equality with right side
  0. When the lifespan is at most the horizon and some planting is alive in the final
  week, the alive planting weeks are \<open>weeks - lifespan\<close>, then \<open>weeks - lifespan + 1\<close> to
  \<open>weeks - 1\<close>, and the left side sums all of them but the first: the one exempted
  variable is the earliest alive planting, the one of week \<open>weeks - lifespan\<close>, not the
  most recent. Otherwise (so whenever the lifespan exceeds the horizon) the left side
  sums every planting alive in the final week.
\<close>

theorem harvestability_exempts_earliest_planting:
  "\<exists>r. setup_problem (weeks (garden g)) g = Inr r \<and>
     (\<forall>c \<in> set (crops g).
        (is_cover_crop c \<longrightarrow>
           (\<forall>prob. harvest_body (weeks (garden g)) (plant_vars_of r) c prob = Inr prob)) \<and>
        (\<not> is_cover_crop c \<longrightarrow>
           (\<exists>k. (''latest_planting_'' @ name c, k) \<in> set (constraints (prob_of r)) \<and>
                sense k = LpConstraintEQ \<and>
                (\<forall>a. evaluate a (rhs k) = 0) \<and>
                (lifespan c \<le> weeks (garden g) \<and> alive_weeks c (weeks (garden g) - 1) \<noteq> [] \<longrightarrow>
                   alive_weeks c (weeks (garden g) - 1) =
                     (weeks (garden g) - lifespan c) #
                       [weeks (garden g) - lifespan c + 1..weeks (garden g) - 1] \<and>
                   (\<forall>a. evaluate a (lhs k) =
                      (\<Sum>p\<leftarrow>[weeks (garden g) - lifespan c + 1..weeks (garden g) - 1].
                          a (planted_in c p)))) \<and>
                (\<not> (lifespan c \<le> weeks (garden g) \<and> alive_weeks c (weeks (garden g) - 1) \<noteq> []) \<longrightarrow>
                   (\<forall>a. evaluate a (lhs k) =
                      (\<Sum>p\<leftarrow>alive_weeks c (weeks (garden g) - 1). a (planted_in c p)))))))"
proof (intro exI [of _ "built_result g"] conjI ballI impI)
  show "setup_problem (weeks (garden g)) g = Inr (built_result g)"
    by (rule setup_problem_built)
next
  fix c assume "c \<in> set (crops g)" "is_cover_crop c"
  then show "\<forall>prob. harvest_body (weeks (garden g)) (plant_vars_of (built_result g)) c prob = Inr prob"
    by (simp add: harvest_body_def)
next
  fix c assume c: "c \<in> set (crops g)" and nc: "\<not> is_cover_crop c"
  let ?W = "weeks (garden g)"
  let ?k = "\<lparr> lhs = lpSum (map (\<lambda>p. Var (planted_in c p)) (harvest_weeks ?W c)),
               sense = LpConstraintEQ, rhs = Num 0 \<rparr>"
  have "(''latest_planting_'' @ name c, ?k) \<in> set (harvest_constraints ?W c)"
    using nc by (simp add: harvest_constraints_def)
  then have mem: "(''latest_planting_'' @ name c, ?k) \<in> set (constraints (prob_of (built_result g)))"
    using harvest_constraints_in_model [OF c] unfolding built_result_fields by blast
  have fits: "lifespan c \<le> ?W \<and> alive_weeks c (?W - 1) \<noteq> [] \<longrightarrow>
       alive_weeks c (?W - 1) = (?W - lifespan c) # [?W - lifespan c + 1..?W - 1] \<and>
       (\<forall>a. evaluate a (lhs ?k) = (\<Sum>p\<leftarrow>[?W - lifespan c + 1..?W - 1]. a (planted_in c p)))"
  proof (intro impI conjI allI)
    assume a: "lifespan c \<le> ?W \<and> alive_weeks c (?W - 1) \<noteq> []"
    show "alive_weeks c (?W - 1) = (?W - lifespan c) # [?W - lifespan c + 1..?W - 1]"
      using harvest_weeks_cases(1) [OF a] by blast
    have hw: "harvest_weeks ?W c = [?W - lifespan c + 1..?W - 1]"
      using harvest_weeks_cases(1) [OF a] by blast
    fix a
    show "evaluate a (lhs ?k) = (\<Sum>p\<leftarrow>[?W - lifespan c + 1..?W - 1]. a (planted_in c p))"
      by (simp add: hw comp_def)
  qed
  have other: "\<not> (lifespan c \<le> ?W \<and> alive_weeks c (?W - 1) \<noteq> []) \<longrightarrow>
       (\<forall>a. evaluate a (lhs ?k) = (\<Sum>p\<leftarrow>alive_weeks c (?W - 1). a (planted_in c p)))"
  proof (intro impI allI)
    fix a
    assume n: "\<not> (lifespan c \<le> ?W \<and> alive_weeks c (?W - 1) \<noteq> [])"
    show "evaluate a (lhs ?k) = (\<Sum>p\<leftarrow>alive_weeks c (?W - 1). a (planted_in c p))"
      by (simp add: harvest_weeks_cases(2) [OF n] comp_def)
  qed
  show "\<exists>k. (''latest_planting_'' @ name c, k) \<in> set (constraints (prob_of (built_result g))) \<and>
                sense k = LpConstraintEQ \<and>
                (\<forall>a. evaluate a (rhs k) = 0) \<and>
                (lifespan c \<le> ?W \<and> alive_weeks c (?W - 1) \<noteq> [] \<longrightarrow>
                   alive_weeks c (?W - 1) = (?W - lifespan c) # [?W - lifespan c + 1..?W - 1] \<and>
                   (\<forall>a. evaluate a (lhs k) =
                      (\<Sum>p\<leftarrow>[?W - lifespan c + 1..?W - 1]. a (planted_in c p)))) \<and>
                (\<not> (lifespan c \<le> ?W \<and> alive_weeks c (?W - 1) \<noteq> []) \<longrightarrow>
                   (\<forall>a. evaluate a (lhs k) =
                      (\<Sum>p\<leftarrow>alive_weeks c (?W - 1). a (planted_in c p))))"
    using mem fits other by (intro exI [of _ ?k]) simp
qed

lemma mixed_garden_fields:
  "weeks (garden mixed_garden) = 4" "crops mixed_garden = [lettuce, clover, pumpkin]"
  by (simp_all add: mixed_garden_def lettuce_garden_file_def)

lemma mixed_crops_fields:
  "is_cover_crop clover" "\<not> is_cover_crop lettuce" "\<not> is_cover_crop pumpkin"
  "lifespan lettuce = 2" "lifespan pumpkin = 9"
  "name lettuce = ''lettuce''" "name pumpkin = ''pumpkin''"
  by (simp_all add: lettuce_def clover_def pumpkin_def)

lemma pumpkin_alive_3: "alive_weeks pumpkin 3 = [0, 1, 2, 3]"
  by (simp add: alive_weeks_def pumpkin_def upto_rec1)

lemma pumpkin_planted_in:
  "planted_in pumpkin 0 = Planted ''pumpkin_week_0''"
  "planted_in pumpkin 1 = Planted ''pumpkin_week_1''"
  "planted_in pumpkin 2 = Planted ''pumpkin_week_2''"
  "planted_in pumpkin 3 = Planted ''pumpkin_week_3''"
  by (simp_all add: planted_in_def get_plant_variable_name_def pumpkin_def str_int_digit)

theorem harvestability_witness:
  "\<exists>r. setup_problem 4 mixed_garden = Inr r \<and>
     (\<forall>prob. harvest_body 4 (plant_vars_of r) clover prob = Inr prob) \<and>
     (\<exists>k. (''latest_planting_lettuce'', k) \<in> set (constraints (prob_of r)) \<and>
          sense k = LpConstraintEQ \<and>
          alive_weeks lettuce 3 = [2, 3] \<and>
          (\<forall>a. evaluate a (lhs k) = a (Planted ''lettuce_week_3''))) \<and>
     (\<exists>k. (''latest_planting_pumpkin'', k) \<in> set (constraints (prob_of r)) \<and>
          sense k = LpConstraintEQ \<and>
          (\<forall>a. evaluate a (lhs k) =
             a (Planted ''pumpkin_week_0'') + a (Planted ''pumpkin_week_1'') +
             a (Planted ''pumpkin_week_2'') + a (Planted ''pumpkin_week_3'')))"
proof -
  from harvestability_exempts_earliest_planting [of mixed_garden]
  obtain r where r: "setup_problem 4 mixed_garden = Inr r"
    and every: "\<forall>c \<in> set [lettuce, clover, pumpkin].
        (is_cover_crop c \<longrightarrow> (\<forall>prob. harvest_body 4 (plant_vars_of r) c prob = Inr prob)) \<and>
        (\<not> is_cover_crop c \<longrightarrow>
           (\<exists>k. (''latest_planting_'' @ name c, k) \<in> set (constraints (prob_of r)) \<and>
                sense k = LpConstraintEQ \<and>
                (\<forall>a. evaluate a (rhs k) = 0) \<and>
                (lifespan c \<le> 4 \<and> alive_weeks c (4 - 1) \<noteq> [] \<longrightarrow>
                   alive_weeks c (4 - 1) = (4 - lifespan c) # [4 - lifespan c + 1..4 - 1] \<and>
                   (\<forall>a. evaluate a (lhs k) =
                      (\<Sum>p\<leftarrow>[4 - lifespan c + 1..4 - 1]. a (planted_in c p)))) \<and>
                (\<not> (lifespan c \<le> 4 \<and> alive_weeks c (4 - 1) \<noteq> []) \<longrightarrow>
                   (\<forall>a. evaluate a (lhs k) =
                      (\<Sum>p\<leftarrow>alive_weeks c (4 - 1). a (planted_in c p))))))"
    unfolding mixed_garden_fields by blast
  have cover: "\<forall>prob. harvest_body 4 (plant_vars_of r) clover prob = Inr prob"
    using every mixed_crops_fields(1) by simp
  have short: "\<exists>k. (''latest_planting_lettuce'', k) \<in> set (constraints (prob_of r)) \<and>
          sense k = LpConstraintEQ \<and>
          alive_weeks lettuce 3 = [2, 3] \<and>
          (\<forall>a. evaluate a (lhs k) = a (Planted ''lettuce_week_3''))"
    using every [rule_format, of lettuce]
    by (simp add: mixed_crops_fields lettuce_alive_3 lettuce_planted_in) blast
  have long: "\<exists>k. (''latest_planting_pumpkin'', k) \<in> set (constraints (prob_of r)) \<and>
          sense k = LpConstraintEQ \<and>
          (\<forall>a. evaluate a (lhs k) =
             a (Planted ''pumpkin_week_0'') + a (Planted ''pumpkin_week_1'') +
             a (Planted ''pumpkin_week_2'') + a (Planted ''pumpkin_week_3''))"
    using every [rule_format, of pumpkin]
    by (simp add: mixed_crops_fields pumpkin_alive_3 pumpkin_planted_in add.assoc) blast
  from r cover short long show ?thesis by blast
qed

text \<open>
  C1 as stated fails: for a crop of lifespan 2 and a horizon of 4 weeks the plantings
  alive in the final week are those of weeks 2 and 3, and the constraint sums the one of
  week 3, the most recent, where the claim would have it sum the one of week 2.
\<close>

theorem most_recent_planting_is_constrained:
  "get_plants_living_in_week lettuce 3 (plant_vars_for lettuce_garden) =
     Inr [Planted ''lettuce_week_2'', Planted ''lettuce_week_3''] \<and>
   plants_that_overlap_of 4 lettuce (plant_vars_for lettuce_garden) =
     Inr [Planted ''lettuce_week_3''] \<and>
   plants_that_overlap_of 4 lettuce (plant_vars_for lettuce_garden) \<noteq>
     Inr [Planted ''lettuce_week_2'']"
proof -
  have mem: "lettuce \<in> set (crops lettuce_garden)"
    by (simp add: lettuce_garden_fields)
  have alive: "get_plants_living_in_week lettuce 3 (plant_vars_for lettuce_garden) =
     Inr [Planted ''lettuce_week_2'', Planted ''lettuce_week_3'']"
    using living_in_week_built [OF mem, of 3]
    by (simp add: lettuce_garden_fields lettuce_alive_3 lettuce_planted_in)
  have hw: "harvest_weeks 4 lettuce = [3]"
    by (simp add: harvest_weeks_def lettuce_def)
  have kept: "plants_that_overlap_of 4 lettuce (plant_vars_for lettuce_garden) =
     Inr [Planted ''lettuce_week_3'']"
    using plants_that_overlap_built [OF mem]
    by (simp add: lettuce_garden_fields hw lettuce_planted_in)
  from alive kept show ?thesis by simp
qed

text \<open>
  C2, as amended. The sensitivity analysis makes no copy: it halves \<open>rainwater\<close> in the
  one \<open>Garden\<close> object that the primary run used and builds its model from that same
  object. Afterwards the object's rainwater is half of what it was, its other fields
  (\<open>sqft\<close>, \<open>weeks\<close>, \<open>greywater\<close>, \<open>yields\<close>, the crops) and every other object are
  unchanged.
\<close>

theorem sensitivity_analysis_changes_the_garden_in_place:
  "rainwater (garden (fst (sensitivity_analysis num_weeks garden_ref st) garden_ref)) =
     rainwater (garden (st garden_ref)) / 2 \<and>
   sqft (garden (fst (sensitivity_analysis num_weeks garden_ref st) garden_ref)) =
     sqft (garden (st garden_ref)) \<and>
   weeks (garden (fst (sensitivity_analysis num_weeks garden_ref st) garden_ref)) =
     weeks (garden (st garden_ref)) \<and>
   greywater (garden (fst (sensitivity_analysis num_weeks garden_ref st) garden_ref)) =
     greywater (garden (st garden_ref)) \<and>
   yields (garden (fst (sensitivity_analysis num_weeks garden_ref st) garden_ref)) =
     yields (garden (st garden_ref)) \<and>
   crops (fst (sensitivity_analysis num_weeks garden_ref st) garden_ref) =
     crops (st garden_ref) \<and>
   (\<forall>r. r \<noteq> garden_ref \<longrightarrow> fst (sensitivity_analysis num_weeks garden_ref st) r = st r) \<and>
   snd (sensitivity_analysis num_weeks garden_ref st) =
     setup_problem num_weeks (fst (sensitivity_analysis num_weeks garden_ref st) garden_ref)"
  by (simp add: sensitivity_analysis_def Let_def)

theorem sensitivity_analysis_witness:
  "rainwater (garden (fst (sensitivity_analysis 4 0 sample_store) 0)) = 500 \<and>
   sqft (garden (fst (sensitivity_analysis 4 0 sample_store) 0)) = 100 \<and>
   weeks (garden (fst (sensitivity_analysis 4 0 sample_store) 0)) = 4 \<and>
   crops (fst (sensitivity_analysis 4 0 sample_store) 0) = [lettuce] \<and>
   (1::nat) \<noteq> 0 \<and>
   fst (sensitivity_analysis 4 0 sample_store) 1 = sample_garden"
proof -
  have ne: "(1::nat) \<noteq> 0" by simp
  show ?thesis
    using ne sensitivity_analysis_changes_the_garden_in_place [of 4 0 sample_store]
    by (simp add: sample_store_def lettuce_garden_def lettuce_garden_file_def)
qed

text \<open>
  C2 as stated fails: with a rainwater of 1000 before the sensitivity analysis, the
  object of the primary run holds 500 after it.
\<close>

theorem sensitivity_analysis_changes_the_primary_garden:
  "rainwater (garden (sample_store 0)) = 1000 \<and>
   rainwater (garden (fst (sensitivity_analysis 4 0 sample_store) 0)) = 500 \<and>
   fst (sensitivity_analysis 4 0 sample_store) 0 \<noteq> sample_store 0"
proof -
  have before: "rainwater (garden (sample_store 0)) = 1000"
    by (simp add: sample_store_def lettuce_garden_def lettuce_garden_file_def)
  have after: "rainwater (garden (fst (sensitivity_analysis 4 0 sample_store) 0)) = 500"
    by (simp add: sensitivity_analysis_def Let_def sample_store_def lettuce_garden_def
        lettuce_garden_file_def)
  from before after have "fst (sensitivity_analysis 4 0 sample_store) 0 \<noteq> sample_store 0"
    by auto
  with before after show ?thesis by simp
qed

end
